theory Spec2Isabelle
  imports Main
begin

section \<open>Python values, exceptions and the outside world\<close>

text \<open>
  The tools of \<^verbatim>\<open>MCPServer.setup_tools\<close> (src/kubernetes-mcp/mcp_server.py) call the
  Kubernetes client library and the binaries kubectl, helm and gcloud. Those calls are the
  only effects of a tool; their outcome is decided by the outside world. A Python value is
  a \<open>pyval\<close>: \<open>PObj\<close> is an object of the client library with its attributes, \<open>PDict\<close> a
  dictionary in insertion order.
\<close>

datatype pyval =
    PNone
  | PBool bool
  | PInt int
  | PStr string
  | PList "pyval list"
  | PDict "(string \<times> pyval) list"
  | PObj "(string \<times> pyval) list"

text \<open>
  The subclasses of \<^verbatim>\<open>Exception\<close> that the handlers of the source tell apart. Each
  carries \<^verbatim>\<open>str(e)\<close>; \<open>CalledProcessError\<close> also its \<^verbatim>\<open>stderr\<close>, \<open>ApiException\<close>
  its \<^verbatim>\<open>status\<close>, \<^verbatim>\<open>reason\<close> and \<^verbatim>\<open>body\<close>. \<open>SubprocessError\<close> is any other subclass
  of \<^verbatim>\<open>subprocess.SubprocessError\<close>, \<open>JSONDecodeError\<close> is a subclass of
  \<^verbatim>\<open>ValueError\<close>, and \<open>OtherException\<close> is every other subclass of \<^verbatim>\<open>Exception\<close>
  (\<^verbatim>\<open>OSError\<close>, \<^verbatim>\<open>AttributeError\<close>, \<^verbatim>\<open>TypeError\<close>, the kubeconfig loader's error).
\<close>

datatype exn =
    CalledProcessError string string
  | SubprocessError string
  | FileNotFoundError string
  | ApiException string int string string
  | ImportError string
  | JSONDecodeError string
  | ValueError string
  | OtherException string

fun str_exn :: "exn \<Rightarrow> string" where
  "str_exn (CalledProcessError m err) = m"
| "str_exn (SubprocessError m) = m"
| "str_exn (FileNotFoundError m) = m"
| "str_exn (ApiException m st rs bd) = m"
| "str_exn (ImportError m) = m"
| "str_exn (JSONDecodeError m) = m"
| "str_exn (ValueError m) = m"
| "str_exn (OtherException m) = m"

text \<open>
  What a tool asks of the outside world. \<open>Import\<close> is the import of a third-party
  package inside a tool body; \<open>KubeApi\<close> one request of the Kubernetes client with its
  arguments in the order the source writes them; \<open>CheckOutput\<close> and \<open>Run\<close> start a
  command and wait until it has exited (\<^verbatim>\<open>subprocess.check_output\<close>,
  \<^verbatim>\<open>subprocess.run(..., check=True)\<close>); \<open>Popen\<close> starts a command and returns at once
  with the process object; \<open>Lib\<close> is any other library function (\<^verbatim>\<open>shutil.which\<close>,
  \<^verbatim>\<open>json.loads\<close>, the file system).
\<close>

datatype call =
    Import string
  | LoadKubeConfig
  | KubeApi string "pyval list"
  | CheckOutput "string list"
  | Run "string list"
  | Popen "string list"
  | Lib string "pyval list"

type_synonym outcome = "exn + pyval"
type_synonym trace = "(call \<times> outcome) list"
type_synonym 'w exec = "call \<Rightarrow> 'w \<Rightarrow> outcome \<times> 'w"
type_synonym 'w st = "'w \<times> trace"
type_synonym ('w, 'a) prog = "'w st \<Rightarrow> (exn + 'a) \<times> 'w st"
type_synonym result = "(string \<times> pyval) list"

text \<open>
  A computation takes the state of the world and the trace of the calls made so far, and
  gives back either the exception it raised or its value, with the new world and trace.
\<close>

definition ret :: "'a \<Rightarrow> ('w, 'a) prog" where
  "ret v = (\<lambda>s. (Inr v, s))"

definition raise_exn :: "exn \<Rightarrow> ('w, 'a) prog" where
  "raise_exn e = (\<lambda>s. (Inl e, s))"

definition lift :: "exn + 'a \<Rightarrow> ('w, 'a) prog" where
  "lift r = (\<lambda>s. (r, s))"

definition bnd :: "('w, 'a) prog \<Rightarrow> ('a \<Rightarrow> ('w, 'b) prog) \<Rightarrow> ('w, 'b) prog" where
  "bnd m f = (\<lambda>s. case m s of (Inl e, s') \<Rightarrow> (Inl e, s') | (Inr v, s') \<Rightarrow> f v s')"

definition try_except :: "('w, 'a) prog \<Rightarrow> (exn \<Rightarrow> ('w, 'a) prog) \<Rightarrow> ('w, 'a) prog" where
  "try_except m h = (\<lambda>s. case m s of (Inl e, s') \<Rightarrow> h e s' | (Inr v, s') \<Rightarrow> (Inr v, s'))"

definition perform :: "'w exec \<Rightarrow> call \<Rightarrow> ('w, pyval) prog" where
  "perform exec c = (\<lambda>(w, tr). case exec c w of (r, w') \<Rightarrow> (r, (w', tr @ [(c, r)])))"

subsection \<open>Pieces of Python\<close>

fun truthy :: "pyval \<Rightarrow> bool" where
  "truthy PNone = False"
| "truthy (PBool b) = b"
| "truthy (PInt i) = (i \<noteq> 0)"
| "truthy (PStr s) = (s \<noteq> [])"
| "truthy (PList xs) = (xs \<noteq> [])"
| "truthy (PDict kvs) = (kvs \<noteq> [])"
| "truthy (PObj fs) = True"

definition opt_str :: "string option \<Rightarrow> pyval" where
  "opt_str x = (case x of None \<Rightarrow> PNone | Some s \<Rightarrow> PStr s)"

definition opt_int :: "int option \<Rightarrow> pyval" where
  "opt_int x = (case x of None \<Rightarrow> PNone | Some i \<Rightarrow> PInt i)"

text \<open>\<^verbatim>\<open>if namespace:\<close> on an optional string: neither \<^verbatim>\<open>None\<close> nor empty.\<close>

definition given :: "string option \<Rightarrow> bool" where
  "given x = (case x of None \<Rightarrow> False | Some s \<Rightarrow> s \<noteq> [])"

text \<open>Attribute access and iteration raise on a value of the wrong shape.\<close>

fun getattr :: "pyval \<Rightarrow> string \<Rightarrow> exn + pyval" where
  "getattr (PObj fs) a =
     (case map_of fs a of
        Some v \<Rightarrow> Inr v
      | None \<Rightarrow> Inl (OtherException (''object has no attribute '' @ a)))"
| "getattr v a = Inl (OtherException (''object has no attribute '' @ a))"

fun iter :: "pyval \<Rightarrow> exn + pyval list" where
  "iter (PList xs) = Inr xs"
| "iter (PDict kvs) = Inr (map (\<lambda>kv. PStr (fst kv)) kvs)"
| "iter (PStr s) = Inr (map (\<lambda>c. PStr [c]) s)"
| "iter v = Inl (OtherException ''object is not iterable'')"

definition sbind :: "exn + 'a \<Rightarrow> ('a \<Rightarrow> exn + 'b) \<Rightarrow> exn + 'b" where
  "sbind r f = (case r of Inl e \<Rightarrow> Inl e | Inr v \<Rightarrow> f v)"

fun getpath :: "pyval \<Rightarrow> string list \<Rightarrow> exn + pyval" where
  "getpath v [] = Inr v"
| "getpath v (a # as) = sbind (getattr v a) (\<lambda>u. getpath u as)"

text \<open>A list comprehension whose element expression may raise.\<close>

fun comprehend :: "('a \<Rightarrow> exn + 'b) \<Rightarrow> 'a list \<Rightarrow> exn + 'b list" where
  "comprehend f [] = Inr []"
| "comprehend f (x # xs) =
     sbind (f x) (\<lambda>y. sbind (comprehend f xs) (\<lambda>ys. Inr (y # ys)))"

text \<open>
  A dictionary display \<^verbatim>\<open>{"k1": obj.a.b, ...}\<close> whose values are attribute paths of
  one object; the values are evaluated in order.
\<close>

fun fields_of :: "pyval \<Rightarrow> (string \<times> string list) list \<Rightarrow> exn + (string \<times> pyval) list" where
  "fields_of v [] = Inr []"
| "fields_of v (kp # kps) =
     sbind (getpath v (snd kp)) (\<lambda>u. sbind (fields_of v kps) (\<lambda>r. Inr ((fst kp, u) # r)))"

text \<open>Decimal rendering of an integer in an f-string.\<close>

fun digits :: "nat \<Rightarrow> string" where
  "digits n =
     (if n < 10 then [''0123456789'' ! n]
      else digits (n div 10) @ [''0123456789'' ! (n mod 10)])"

declare digits.simps [simp del]

definition str_int :: "int \<Rightarrow> string" where
  "str_int i = (if i < 0 then CHR ''-'' # digits (nat (- i)) else digits (nat i))"

text \<open>A piece of an f-string between single quotes.\<close>

definition quoted :: "string \<Rightarrow> string" where
  "quoted s = CHR 0x27 # s @ [CHR 0x27]"

text \<open>The envelope of a failure.\<close>

definition failure :: "string \<Rightarrow> result" where
  "failure msg = [(''success'', PBool False), (''error'', PStr msg)]"

definition kube_client :: "'w exec \<Rightarrow> ('w, pyval) prog" where
  \<comment> \<open>\<^verbatim>\<open>from kubernetes import client, config; config.load_kube_config()\<close>\<close>
  "kube_client exec = bnd (perform exec (Import ''kubernetes'')) (\<lambda>_. perform exec LoadKubeConfig)"

section \<open>Availability of the command-line tools\<close>

definition is_SubprocessError :: "exn \<Rightarrow> bool" where
  "is_SubprocessError e =
     (case e of CalledProcessError m err \<Rightarrow> True | SubprocessError m \<Rightarrow> True | _ \<Rightarrow> False)"

definition is_FileNotFoundError :: "exn \<Rightarrow> bool" where
  "is_FileNotFoundError e = (case e of FileNotFoundError m \<Rightarrow> True | _ \<Rightarrow> False)"

definition check_tool_availability :: "'w exec \<Rightarrow> string \<Rightarrow> ('w, bool) prog" where
  "check_tool_availability exec tool =
     try_except
       (bnd (perform exec (Lib ''shutil.which'' [PStr tool])) (\<lambda>p.
          if p = PNone then ret False
          else if tool = ''kubectl'' then
            bnd (perform exec (CheckOutput [tool, ''version'', ''--client''])) (\<lambda>_. ret True)
          else if tool = ''helm'' then
            bnd (perform exec (CheckOutput [tool, ''version''])) (\<lambda>_. ret True)
          else ret True))
       (\<lambda>e. if is_SubprocessError e \<or> is_FileNotFoundError e then ret False else raise_exn e)"

definition check_kubectl_availability :: "'w exec \<Rightarrow> ('w, bool) prog" where
  "check_kubectl_availability exec = check_tool_availability exec ''kubectl''"

definition check_helm_availability :: "'w exec \<Rightarrow> ('w, bool) prog" where
  "check_helm_availability exec = check_tool_availability exec ''helm''"

section \<open>The tools\<close>

text \<open>
  Each tool is a closure registered by \<^verbatim>\<open>setup_tools\<close>. Calls of the logger have no
  effect on the result and are left out. A parameter of the source with default
  \<^verbatim>\<open>None\<close> is an option here.
\<close>

definition rows_of :: "pyval \<Rightarrow> (string \<times> string list) list \<Rightarrow> exn + pyval" where
  \<comment> \<open>\<^verbatim>\<open>[{"k": x.a.b, ...} for x in resp.items]\<close>\<close>
  "rows_of resp kps =
     sbind (getattr resp ''items'') (\<lambda>its. sbind (iter its) (\<lambda>xs.
       sbind (comprehend (\<lambda>x. sbind (fields_of x kps) (\<lambda>fs. Inr (PDict fs))) xs) (\<lambda>rows.
         Inr (PList rows))))"

definition names_of :: "pyval \<Rightarrow> exn + pyval" where
  \<comment> \<open>\<^verbatim>\<open>[x.metadata.name for x in resp.items]\<close>\<close>
  "names_of resp =
     sbind (getattr resp ''items'') (\<lambda>its. sbind (iter its) (\<lambda>xs.
       sbind (comprehend (\<lambda>x. getpath x [''metadata'', ''name'']) xs) (\<lambda>ns. Inr (PList ns))))"

definition list_call :: "'w exec \<Rightarrow> string option \<Rightarrow> string \<Rightarrow> string \<Rightarrow> ('w, pyval) prog" where
  \<comment> \<open>\<^verbatim>\<open>if namespace: api.list_namespaced_x(namespace) else: api.list_x_for_all_namespaces()\<close>\<close>
  "list_call exec namespace namespaced everywhere =
     (if given namespace then perform exec (KubeApi namespaced [opt_str namespace])
      else perform exec (KubeApi everywhere []))"

definition get_pods :: "'w exec \<Rightarrow> string option \<Rightarrow> ('w, result) prog" where
  "get_pods exec namespace =
     try_except
       (bnd (kube_client exec) (\<lambda>_.
        bnd (list_call exec namespace ''list_namespaced_pod'' ''list_pod_for_all_namespaces'') (\<lambda>pods.
        bnd (lift (rows_of pods
               [(''name'', [''metadata'', ''name'']),
                (''namespace'', [''metadata'', ''namespace'']),
                (''status'', [''status'', ''phase'']),
                (''ip'', [''status'', ''pod_ip''])])) (\<lambda>rows.
        ret [(''success'', PBool True), (''pods'', rows)]))))
       (\<lambda>e. ret (failure (str_exn e)))"

definition get_namespaces :: "'w exec \<Rightarrow> ('w, result) prog" where
  "get_namespaces exec =
     try_except
       (bnd (kube_client exec) (\<lambda>_.
        bnd (perform exec (KubeApi ''list_namespace'' [])) (\<lambda>namespaces.
        bnd (lift (names_of namespaces)) (\<lambda>ns.
        ret [(''success'', PBool True), (''namespaces'', ns)]))))
       (\<lambda>e. ret (failure (str_exn e)))"

definition get_services :: "'w exec \<Rightarrow> string option \<Rightarrow> ('w, result) prog" where
  "get_services exec namespace =
     try_except
       (bnd (kube_client exec) (\<lambda>_.
        bnd (list_call exec namespace ''list_namespaced_service''
               ''list_service_for_all_namespaces'') (\<lambda>services.
        bnd (lift (rows_of services
               [(''name'', [''metadata'', ''name'']),
                (''namespace'', [''metadata'', ''namespace'']),
                (''type'', [''spec'', ''type'']),
                (''cluster_ip'', [''spec'', ''cluster_ip''])])) (\<lambda>rows.
        ret [(''success'', PBool True), (''services'', rows)]))))
       (\<lambda>e. ret (failure (str_exn e)))"

fun subscript_last :: "pyval \<Rightarrow> exn + pyval" where
  \<comment> \<open>\<^verbatim>\<open>xs[-1]\<close>\<close>
  "subscript_last (PList xs) =
     (if xs = [] then Inl (OtherException ''list index out of range'') else Inr (last xs))"
| "subscript_last (PStr s) =
     (if s = [] then Inl (OtherException ''string index out of range'') else Inr (PStr [last s]))"
| "subscript_last (PDict kvs) = Inl (OtherException ''-1'')"
| "subscript_last v = Inl (OtherException ''object is not subscriptable'')"

definition node_row :: "pyval \<Rightarrow> exn + pyval" where
  "node_row node =
     sbind (getpath node [''metadata'', ''name'']) (\<lambda>name.
     sbind (getpath node [''status'', ''conditions'']) (\<lambda>conds.
     sbind (if truthy conds
            then sbind (getpath node [''status'', ''conditions'']) (\<lambda>cs.
                 sbind (subscript_last cs) (\<lambda>c. getattr c ''type''))
            else Inr PNone) (\<lambda>status.
     sbind (getpath node [''status'', ''addresses'']) (\<lambda>addrs.
     sbind (iter addrs) (\<lambda>as.
     sbind (comprehend (\<lambda>a. getattr a ''address'') as) (\<lambda>addresses.
       Inr (PDict [(''name'', name), (''status'', status),
                   (''addresses'', PList addresses)])))))))"

definition get_nodes :: "'w exec \<Rightarrow> ('w, result) prog" where
  "get_nodes exec =
     try_except
       (bnd (kube_client exec) (\<lambda>_.
        bnd (perform exec (KubeApi ''list_node'' [])) (\<lambda>nodes.
        bnd (lift (sbind (getattr nodes ''items'') (\<lambda>its. sbind (iter its) (\<lambda>xs.
               comprehend node_row xs)))) (\<lambda>rows.
        ret [(''success'', PBool True), (''nodes'', PList rows)]))))
       (\<lambda>e. ret (failure (str_exn e)))"

definition get_configmaps :: "'w exec \<Rightarrow> string option \<Rightarrow> ('w, result) prog" where
  "get_configmaps exec namespace =
     try_except
       (bnd (kube_client exec) (\<lambda>_.
        bnd (list_call exec namespace ''list_namespaced_config_map''
               ''list_config_map_for_all_namespaces'') (\<lambda>cms.
        bnd (lift (rows_of cms
               [(''name'', [''metadata'', ''name'']),
                (''namespace'', [''metadata'', ''namespace'']),
                (''data'', [''data''])])) (\<lambda>rows.
        ret [(''success'', PBool True), (''configmaps'', rows)]))))
       (\<lambda>e. ret (failure (str_exn e)))"

definition get_secrets :: "'w exec \<Rightarrow> string option \<Rightarrow> ('w, result) prog" where
  "get_secrets exec namespace =
     try_except
       (bnd (kube_client exec) (\<lambda>_.
        bnd (list_call exec namespace ''list_namespaced_secret''
               ''list_secret_for_all_namespaces'') (\<lambda>secrets.
        bnd (lift (rows_of secrets
               [(''name'', [''metadata'', ''name'']),
                (''namespace'', [''metadata'', ''namespace'']),
                (''type'', [''type''])])) (\<lambda>rows.
        ret [(''success'', PBool True), (''secrets'', rows)]))))
       (\<lambda>e. ret (failure (str_exn e)))"

definition get_rbac_roles :: "'w exec \<Rightarrow> string option \<Rightarrow> ('w, result) prog" where
  "get_rbac_roles exec namespace =
     try_except
       (bnd (kube_client exec) (\<lambda>_.
        bnd (list_call exec namespace ''list_namespaced_role''
               ''list_role_for_all_namespaces'') (\<lambda>roles.
        bnd (lift (names_of roles)) (\<lambda>ns.
        ret [(''success'', PBool True), (''roles'', ns)]))))
       (\<lambda>e. ret (failure (str_exn e)))"

definition get_cluster_roles :: "'w exec \<Rightarrow> ('w, result) prog" where
  "get_cluster_roles exec =
     try_except
       (bnd (kube_client exec) (\<lambda>_.
        bnd (perform exec (KubeApi ''list_cluster_role'' [])) (\<lambda>roles.
        bnd (lift (names_of roles)) (\<lambda>ns.
        ret [(''success'', PBool True), (''cluster_roles'', ns)]))))
       (\<lambda>e. ret (failure (str_exn e)))"

definition get_events :: "'w exec \<Rightarrow> string option \<Rightarrow> ('w, result) prog" where
  "get_events exec namespace =
     try_except
       (bnd (kube_client exec) (\<lambda>_.
        bnd (list_call exec namespace ''list_namespaced_event''
               ''list_event_for_all_namespaces'') (\<lambda>events.
        bnd (lift (rows_of events
               [(''name'', [''metadata'', ''name'']),
                (''namespace'', [''metadata'', ''namespace'']),
                (''type'', [''type'']),
                (''reason'', [''reason'']),
                (''message'', [''message''])])) (\<lambda>rows.
        ret [(''success'', PBool True), (''events'', rows)]))))
       (\<lambda>e. ret (failure (str_exn e)))"

definition get_deployments :: "'w exec \<Rightarrow> string option \<Rightarrow> ('w, result) prog" where
  "get_deployments exec namespace =
     try_except
       (bnd (kube_client exec) (\<lambda>_.
        bnd (list_call exec namespace ''list_namespaced_deployment''
               ''list_deployment_for_all_namespaces'') (\<lambda>deployments.
        bnd (lift (rows_of deployments
               [(''name'', [''metadata'', ''name'']),
                (''namespace'', [''metadata'', ''namespace'']),
                (''replicas'', [''status'', ''replicas''])])) (\<lambda>rows.
        ret [(''success'', PBool True), (''deployments'', rows)]))))
       (\<lambda>e. ret (failure (str_exn e)))"

definition health_check :: "'w exec \<Rightarrow> ('w, result) prog" where
  "health_check exec =
     try_except
       (bnd (kube_client exec) (\<lambda>_.
        bnd (perform exec (KubeApi ''get_api_resources'' [])) (\<lambda>_.
        ret [(''success'', PBool True), (''message'', PStr ''Cluster API is reachable'')])))
       (\<lambda>e. ret (failure (str_exn e)))"

definition event_row :: "pyval \<Rightarrow> exn + pyval" where
  \<comment> \<open>The \<^verbatim>\<open>isoformat()\<close> of a timestamp is read as its attribute \<open>isoformat\<close>.\<close>
  "event_row event =
     sbind (fields_of event
        [(''name'', [''metadata'', ''name'']), (''type'', [''type'']),
         (''reason'', [''reason'']), (''message'', [''message''])]) (\<lambda>fs.
     sbind (getattr event ''last_timestamp'') (\<lambda>ts.
     sbind (if truthy ts then getpath event [''last_timestamp'', ''isoformat''] else Inr PNone)
       (\<lambda>stamp. Inr (PDict (fs @ [(''timestamp'', stamp)])))))"

definition get_pod_events :: "'w exec \<Rightarrow> string \<Rightarrow> string \<Rightarrow> ('w, result) prog" where
  "get_pod_events exec pod_name namespace =
     try_except
       (bnd (kube_client exec) (\<lambda>_.
        bnd (perform exec (KubeApi ''list_namespaced_event''
               [PStr namespace, PStr (''involvedObject.name='' @ pod_name)])) (\<lambda>events.
        bnd (lift (sbind (getattr events ''items'') (\<lambda>its. sbind (iter its) (\<lambda>xs.
               comprehend event_row xs)))) (\<lambda>rows.
        ret [(''success'', PBool True), (''events'', PList rows)]))))
       (\<lambda>e. ret (failure (str_exn e)))"

definition check_pod_health :: "'w exec \<Rightarrow> string \<Rightarrow> string \<Rightarrow> ('w, result) prog" where
  "check_pod_health exec pod_name namespace =
     try_except
       (bnd (kube_client exec) (\<lambda>_.
        bnd (perform exec (KubeApi ''read_namespaced_pod'' [PStr pod_name, PStr namespace])) (\<lambda>pod.
        bnd (lift (getattr pod ''status'')) (\<lambda>status.
        bnd (lift (getattr status ''phase'')) (\<lambda>phase.
        bnd (lift (sbind (getattr status ''conditions'') (\<lambda>conds.
               if truthy conds
               then sbind (getattr status ''conditions'') (\<lambda>cs. sbind (iter cs) (\<lambda>xs.
                    sbind (comprehend (\<lambda>c. getattr c ''type'') xs) (\<lambda>ts. Inr (PList ts))))
               else Inr (PList [])))) (\<lambda>conditions.
        ret [(''success'', PBool True), (''phase'', phase), (''conditions'', conditions)]))))))
       (\<lambda>e. ret (failure (str_exn e)))"

definition V1Deployment :: "string \<Rightarrow> string \<Rightarrow> int \<Rightarrow> pyval" where
  "V1Deployment name img replicas =
     PObj [(''metadata'', PObj [(''name'', PStr name)]),
           (''spec'', PObj
              [(''replicas'', PInt replicas),
               (''selector'', PObj [(''match_labels'', PDict [(''app'', PStr name)])]),
               (''template'', PObj
                  [(''metadata'', PObj [(''labels'', PDict [(''app'', PStr name)])]),
                   (''spec'', PObj [(''containers'',
                      PList [PObj [(''name'', PStr name), (''image'', PStr img)]])])])])]"

definition create_deployment :: "'w exec \<Rightarrow> string \<Rightarrow> string \<Rightarrow> int \<Rightarrow> string \<Rightarrow> ('w, result) prog" where
  "create_deployment exec name img replicas namespace =
     try_except
       (bnd (kube_client exec) (\<lambda>_.
        bnd (perform exec (KubeApi ''create_namespaced_deployment''
               [V1Deployment name img replicas, PStr namespace])) (\<lambda>_.
        ret [(''success'', PBool True),
             (''message'', PStr (''Deployment '' @ name @ '' created successfully''))])))
       (\<lambda>e. ret (failure (str_exn e)))"

definition delete_resource :: "'w exec \<Rightarrow> string \<Rightarrow> string \<Rightarrow> string \<Rightarrow> ('w, result) prog" where
  "delete_resource exec resource_type name namespace =
     try_except
       (bnd (kube_client exec) (\<lambda>_.
        let deleted = ret [(''success'', PBool True),
              (''message'', PStr (resource_type @ '' '' @ name @ '' deleted successfully''))]
        in
        if resource_type = ''pod'' then
          bnd (perform exec (KubeApi ''delete_namespaced_pod'' [PStr name, PStr namespace]))
            (\<lambda>_. deleted)
        else if resource_type = ''deployment'' then
          bnd (perform exec (KubeApi ''delete_namespaced_deployment'' [PStr name, PStr namespace]))
            (\<lambda>_. deleted)
        else if resource_type = ''service'' then
          bnd (perform exec (KubeApi ''delete_namespaced_service'' [PStr name, PStr namespace]))
            (\<lambda>_. deleted)
        else ret (failure (''Unsupported resource type: '' @ resource_type))))
       (\<lambda>e. ret (failure (str_exn e)))"

definition get_logs :: "'w exec \<Rightarrow> string \<Rightarrow> string \<Rightarrow> string option \<Rightarrow> int option \<Rightarrow> ('w, result) prog" where
  "get_logs exec pod_name namespace container tail =
     try_except
       (bnd (kube_client exec) (\<lambda>_.
        bnd (perform exec (KubeApi ''read_namespaced_pod_log''
               [PStr pod_name, PStr namespace, opt_str container, opt_int tail])) (\<lambda>logs.
        ret [(''success'', PBool True), (''logs'', logs)])))
       (\<lambda>e. ret (failure (str_exn e)))"

definition port_forward :: "'w exec \<Rightarrow> string \<Rightarrow> int \<Rightarrow> int \<Rightarrow> string \<Rightarrow> ('w, result) prog" where
  "port_forward exec pod_name local_port pod_port namespace =
     try_except
       (bnd (perform exec (Popen
               [''kubectl'', ''port-forward'', ''pod/'' @ pod_name,
                str_int local_port @ '':'' @ str_int pod_port, ''-n'', namespace])) (\<lambda>process.
        bnd (lift (getattr process ''pid'')) (\<lambda>pid.
        ret [(''success'', PBool True),
             (''message'', PStr (''Port forwarding started: localhost:'' @ str_int local_port
                @ '' -> '' @ pod_name @ '':'' @ str_int pod_port)),
             (''process_pid'', pid)])))
       (\<lambda>e. ret (failure (str_exn e)))"

fun assign :: "string \<Rightarrow> pyval \<Rightarrow> (string \<times> pyval) list \<Rightarrow> (string \<times> pyval) list" where
  "assign a v [] = [(a, v)]"
| "assign a v (kv # kvs) = (if fst kv = a then (a, v) # kvs else kv # assign a v kvs)"

fun setattr :: "pyval \<Rightarrow> string \<Rightarrow> pyval \<Rightarrow> exn + pyval" where
  "setattr (PObj fs) a v = Inr (PObj (assign a v fs))"
| "setattr u a v = Inl (OtherException (''object has no attribute '' @ a))"

definition set_replicas :: "pyval \<Rightarrow> int \<Rightarrow> exn + pyval" where
  \<comment> \<open>\<^verbatim>\<open>deployment.spec.replicas = replicas\<close>\<close>
  "set_replicas deployment replicas =
     sbind (getattr deployment ''spec'') (\<lambda>spec.
     sbind (setattr spec ''replicas'' (PInt replicas)) (\<lambda>spec'.
       setattr deployment ''spec'' spec'))"

definition scale_deployment :: "'w exec \<Rightarrow> string \<Rightarrow> int \<Rightarrow> string \<Rightarrow> ('w, result) prog" where
  "scale_deployment exec name replicas namespace =
     try_except
       (bnd (kube_client exec) (\<lambda>_.
        bnd (perform exec (KubeApi ''read_namespaced_deployment'' [PStr name, PStr namespace]))
          (\<lambda>deployment.
        bnd (lift (set_replicas deployment replicas)) (\<lambda>deployment'.
        bnd (perform exec (KubeApi ''patch_namespaced_deployment''
               [PStr name, PStr namespace, deployment'])) (\<lambda>_.
        ret [(''success'', PBool True),
             (''message'', PStr (''Deployment '' @ name @ '' scaled to '' @ str_int replicas
                @ '' replicas''))])))))
       (\<lambda>e. ret (failure (str_exn e)))"

definition switch_context :: "'w exec \<Rightarrow> string \<Rightarrow> ('w, result) prog" where
  "switch_context exec context_name =
     try_except
       (bnd (perform exec (CheckOutput [''kubectl'', ''config'', ''use-context'', context_name])) (\<lambda>_.
          ret [(''success'', PBool True),
               (''message'', PStr (''Switched context to '' @ context_name))]))
       (\<lambda>e. ret (failure (str_exn e)))"

definition is_space :: "char \<Rightarrow> bool" where
  \<comment> \<open>The characters below 256 that \<^verbatim>\<open>str.strip()\<close> removes; a \<open>char\<close> is a code point
      below 256 here.\<close>
  "is_space c =
     (c \<in> set [CHR '' '', CHR 0x09, CHR 0x0A, CHR 0x0B, CHR 0x0C, CHR 0x0D,
               CHR 0x1C, CHR 0x1D, CHR 0x1E, CHR 0x1F, CHR 0x85, CHR 0xA0])"

definition strip :: "string \<Rightarrow> string" where
  "strip s = rev (dropWhile is_space (rev (dropWhile is_space s)))"

fun str_strip :: "pyval \<Rightarrow> exn + pyval" where
  \<comment> \<open>\<^verbatim>\<open>output.strip()\<close>\<close>
  "str_strip (PStr s) = Inr (PStr (strip s))"
| "str_strip v = Inl (OtherException ''object has no attribute strip'')"

definition get_current_context :: "'w exec \<Rightarrow> ('w, result) prog" where
  "get_current_context exec =
     try_except
       (bnd (perform exec (CheckOutput [''kubectl'', ''config'', ''current-context''])) (\<lambda>out.
        bnd (lift (str_strip out)) (\<lambda>output.
        ret [(''success'', PBool True), (''context'', output)])))
       (\<lambda>e. ret (failure (str_exn e)))"

definition kubectl_explain :: "'w exec \<Rightarrow> string \<Rightarrow> ('w, result) prog" where
  "kubectl_explain exec resource =
     try_except
       (bnd (perform exec (CheckOutput [''kubectl'', ''explain'', resource])) (\<lambda>output.
        ret [(''success'', PBool True), (''explanation'', output)]))
       (\<lambda>e. ret (failure (str_exn e)))"

definition get_api_resources :: "'w exec \<Rightarrow> ('w, result) prog" where
  "get_api_resources exec =
     try_except
       (bnd (perform exec (CheckOutput [''kubectl'', ''api-resources''])) (\<lambda>output.
        ret [(''success'', PBool True), (''resources'', output)]))
       (\<lambda>e. ret (failure (str_exn e)))"

text \<open>
  \<^verbatim>\<open>e.stderr if hasattr(e, 'stderr') else str(e)\<close> in a handler of
  \<^verbatim>\<open>CalledProcessError\<close>, which always has the attribute.
\<close>

fun stderr_of :: "exn \<Rightarrow> string" where
  "stderr_of (CalledProcessError m err) = err"
| "stderr_of e = str_exn e"

definition is_CalledProcessError :: "exn \<Rightarrow> bool" where
  "is_CalledProcessError e = (case e of CalledProcessError m err \<Rightarrow> True | _ \<Rightarrow> False)"

definition is_JSONDecodeError :: "exn \<Rightarrow> bool" where
  "is_JSONDecodeError e = (case e of JSONDecodeError m \<Rightarrow> True | _ \<Rightarrow> False)"

definition uninstall_helm_chart :: "'w exec \<Rightarrow> string \<Rightarrow> string \<Rightarrow> ('w, result) prog" where
  "uninstall_helm_chart exec name namespace =
     bnd (check_helm_availability exec) (\<lambda>available.
       if \<not> available then ret (failure ''Helm is not available on this system'')
       else
         try_except
           (try_except
              (bnd (perform exec (CheckOutput [''helm'', ''uninstall'', name, ''-n'', namespace]))
                 (\<lambda>res.
               ret [(''success'', PBool True),
                    (''message'', PStr (''Helm release '' @ name @ '' uninstalled from ''
                       @ namespace)),
                    (''details'', res)]))
              (\<lambda>e. if is_CalledProcessError e
                    then ret (failure (''Failed to uninstall Helm chart: '' @ stderr_of e))
                    else raise_exn e))
           (\<lambda>e. ret (failure (''Unexpected error: '' @ str_exn e))))"

subsection \<open>Helm install and upgrade\<close>

fun split_on :: "char \<Rightarrow> string \<Rightarrow> string list" where
  \<comment> \<open>\<^verbatim>\<open>s.split(c)\<close>\<close>
  "split_on c [] = [[]]"
| "split_on c (x # xs) =
     (if x = c then [] # split_on c xs
      else (case split_on c xs of p # ps \<Rightarrow> (x # p) # ps | [] \<Rightarrow> [[x]]))"

text \<open>
  A block of the source that either returns from the tool (\<open>Inl\<close> the returned
  dictionary) or falls through with a value (\<open>Inr\<close>).
\<close>

definition add_repo :: "'w exec \<Rightarrow> string option \<Rightarrow> string \<Rightarrow> ('w, result + string) prog" where
  \<comment> \<open>The \<^verbatim>\<open>if repo:\<close> block shared by install and upgrade; falls through with the chart.\<close>
  "add_repo exec repo chart =
     (case repo of
        None \<Rightarrow> ret (Inr chart)
      | Some r \<Rightarrow>
          if r = [] then ret (Inr chart)
          else
            try_except
              (case split_on CHR ''='' r of
                 [repo_name, repo_url] \<Rightarrow>
                   bnd (perform exec (CheckOutput [''helm'', ''repo'', ''add'', repo_name, repo_url]))
                     (\<lambda>_.
                   bnd (perform exec (CheckOutput [''helm'', ''repo'', ''update''])) (\<lambda>_.
                   ret (Inr (if CHR ''/'' \<notin> set chart then repo_name @ ''/'' @ chart
                             else chart))))
               | _ \<Rightarrow> ret (Inl (failure (''Repository format should be '' @ quoted ''repo_name=repo_url''))))
              (\<lambda>e. if is_CalledProcessError e
                    then ret (Inl (failure (''Failed to add Helm repo: '' @ stderr_of e)))
                    else raise_exn e))"

definition ensure_namespace :: "'w exec \<Rightarrow> string \<Rightarrow> ('w, result + unit) prog" where
  \<comment> \<open>\<^verbatim>\<open># Create namespace if it doesn't exist\<close>\<close>
  "ensure_namespace exec namespace =
     try_except
       (bnd (perform exec (CheckOutput [''kubectl'', ''get'', ''namespace'', namespace]))
          (\<lambda>_. ret (Inr ())))
       (\<lambda>e. if is_CalledProcessError e
             then try_except
                    (bnd (perform exec (CheckOutput [''kubectl'', ''create'', ''namespace'', namespace]))
                       (\<lambda>_. ret (Inr ())))
                    (\<lambda>e'. if is_CalledProcessError e'
                           then ret (Inl (failure (''Failed to create namespace: '' @ stderr_of e')))
                           else raise_exn e')
             else raise_exn e)"

fun str_of :: "pyval \<Rightarrow> exn + string" where
  "str_of (PStr s) = Inr s"
| "str_of v = Inl (OtherException ''expected str instance'')"

definition write_values :: "'w exec \<Rightarrow> pyval \<Rightarrow> string list \<Rightarrow> ('w, pyval \<times> string list) prog" where
  \<comment> \<open>The \<^verbatim>\<open>if values:\<close> block: gives \<^verbatim>\<open>values_file\<close> and the extended command.\<close>
  "write_values exec values cmd =
     (if truthy values then
        bnd (perform exec (Lib ''tempfile.NamedTemporaryFile'' [PStr ''w'', PBool False])) (\<lambda>f.
        bnd (perform exec (Lib ''yaml.dump'' [values, f])) (\<lambda>_.
        bnd (lift (getattr f ''name'')) (\<lambda>values_file.
        bnd (lift (str_of values_file)) (\<lambda>path.
        ret (values_file, cmd @ [''-f'', path])))))
      else ret (PNone, cmd))"

definition remove_values :: "'w exec \<Rightarrow> pyval \<Rightarrow> ('w, unit) prog" where
  \<comment> \<open>The \<^verbatim>\<open>finally:\<close> block.\<close>
  "remove_values exec values_file =
     (if truthy values_file then
        bnd (perform exec (Lib ''os.path.exists'' [values_file])) (\<lambda>ex.
          if truthy ex then bnd (perform exec (Lib ''os.unlink'' [values_file])) (\<lambda>_. ret ())
          else ret ())
      else ret ())"

definition try_finally :: "('w, 'a) prog \<Rightarrow> ('w, unit) prog \<Rightarrow> ('w, 'a) prog" where
  \<comment> \<open>The clean-up runs on every exit; an exception it raises replaces the outcome.\<close>
  "try_finally m c =
     (\<lambda>s. case m s of (r, s') \<Rightarrow>
        (case c s' of (Inl e, s'') \<Rightarrow> (Inl e, s'') | (Inr u, s'') \<Rightarrow> (r, s'')))"

definition try_else ::
  "('w, 'a) prog \<Rightarrow> (exn \<Rightarrow> ('w, 'b) prog) \<Rightarrow> ('a \<Rightarrow> ('w, 'b) prog) \<Rightarrow> ('w, 'b) prog" where
  \<comment> \<open>The first part of a \<^verbatim>\<open>try\<close> body under its handler, the rest of the body after it.\<close>
  "try_else m h k = (\<lambda>s. case m s of (Inl e, s') \<Rightarrow> h e s' | (Inr v, s') \<Rightarrow> k v s')"

definition helm_run :: "'w exec \<Rightarrow> pyval \<Rightarrow> string list \<Rightarrow> string \<Rightarrow> string \<Rightarrow> ('w, result) prog" where
  \<comment> \<open>The last \<^verbatim>\<open>try\<close> of install and upgrade. An exception of the \<^verbatim>\<open>if values:\<close>
      block leaves \<^verbatim>\<open>values_file\<close> at \<^verbatim>\<open>None\<close>, so the clean-up does nothing then.\<close>
  "helm_run exec values cmd message failed =
     try_else (write_values exec values cmd)
       (\<lambda>e. if is_CalledProcessError e then ret (failure (failed @ stderr_of e)) else raise_exn e)
       (\<lambda>vc.
          try_finally
            (try_except
               (bnd (perform exec (CheckOutput (snd vc))) (\<lambda>res.
                ret [(''success'', PBool True), (''message'', PStr message),
                     (''details'', res)]))
               (\<lambda>e. if is_CalledProcessError e then ret (failure (failed @ stderr_of e))
                     else raise_exn e))
            (remove_values exec (fst vc)))"

definition install_helm_chart ::
  "'w exec \<Rightarrow> string \<Rightarrow> string \<Rightarrow> string \<Rightarrow> string option \<Rightarrow> pyval \<Rightarrow> ('w, result) prog" where
  "install_helm_chart exec name chart namespace repo values =
     bnd (check_helm_availability exec) (\<lambda>available.
       if \<not> available then ret (failure ''Helm is not available on this system'')
       else
         try_except
           (bnd (add_repo exec repo chart) (\<lambda>r.
              case r of
                Inl returned \<Rightarrow> ret returned
              | Inr chart' \<Rightarrow>
                  let cmd = [''helm'', ''install'', name, chart', ''-n'', namespace] in
                  bnd (ensure_namespace exec namespace) (\<lambda>r'.
                    case r' of
                      Inl returned \<Rightarrow> ret returned
                    | Inr u \<Rightarrow>
                        helm_run exec values cmd
                          (''Helm chart '' @ chart' @ '' installed as '' @ name @ '' in ''
                             @ namespace)
                          ''Failed to install Helm chart: '')))
           (\<lambda>e. ret (failure (''Unexpected error: '' @ str_exn e))))"

definition upgrade_helm_chart ::
  "'w exec \<Rightarrow> string \<Rightarrow> string \<Rightarrow> string \<Rightarrow> string option \<Rightarrow> pyval \<Rightarrow> ('w, result) prog" where
  "upgrade_helm_chart exec name chart namespace repo values =
     bnd (check_helm_availability exec) (\<lambda>available.
       if \<not> available then ret (failure ''Helm is not available on this system'')
       else
         try_except
           (bnd (add_repo exec repo chart) (\<lambda>r.
              case r of
                Inl returned \<Rightarrow> ret returned
              | Inr chart' \<Rightarrow>
                  let cmd = [''helm'', ''upgrade'', name, chart', ''-n'', namespace] in
                  helm_run exec values cmd
                    (''Helm release '' @ name @ '' upgraded with chart '' @ chart' @ '' in ''
                       @ namespace)
                    ''Failed to upgrade Helm chart: ''))
           (\<lambda>e. ret (failure (''Unexpected error: '' @ str_exn e))))"

subsection \<open>Resource usage\<close>

definition top_pods_args :: "string option \<Rightarrow> string list" where
  "top_pods_args namespace =
     (case namespace of
        None \<Rightarrow> [''--all-namespaces'']
      | Some ns \<Rightarrow> if ns = [] then [''--all-namespaces''] else [''-n'', ns])"

definition json_or_text :: "'w exec \<Rightarrow> string list \<Rightarrow> string list \<Rightarrow> ('w, pyval) prog" where
  \<comment> \<open>\<^verbatim>\<open>kubectl top\<close> as JSON, with the fall-back to the text output.\<close>
  "json_or_text exec json_cmd text_cmd =
     try_except
       (bnd (perform exec (CheckOutput json_cmd)) (\<lambda>output.
          perform exec (Lib ''json.loads'' [output])))
       (\<lambda>e. if is_CalledProcessError e \<or> is_JSONDecodeError e
             then bnd (perform exec (CheckOutput text_cmd)) (\<lambda>output.
                    ret (PDict [(''text_output'', output)]))
             else raise_exn e)"

definition get_resource_usage :: "'w exec \<Rightarrow> string option \<Rightarrow> ('w, result) prog" where
  "get_resource_usage exec namespace =
     bnd (check_kubectl_availability exec) (\<lambda>available.
       if \<not> available then ret (failure ''kubectl is not available on this system'')
       else
         try_except
           (bnd (json_or_text exec
                   ([''kubectl'', ''top'', ''pods'', ''--no-headers''] @ top_pods_args namespace
                      @ [''-o'', ''json''])
                   ([''kubectl'', ''top'', ''pods''] @ top_pods_args namespace)) (\<lambda>pod_data.
            bnd (json_or_text exec
                   [''kubectl'', ''top'', ''nodes'', ''--no-headers'', ''-o'', ''json'']
                   [''kubectl'', ''top'', ''nodes'']) (\<lambda>node_data.
            ret [(''success'', PBool True), (''pod_usage'', pod_data),
                 (''node_usage'', node_data)])))
           (\<lambda>e. if is_CalledProcessError e
                 then ret (failure (''Failed to get resource usage: '' @ stderr_of e))
                 else ret (failure (''Unexpected error: '' @ str_exn e))))"

subsection \<open>GKE login\<close>

fun dict_get :: "pyval \<Rightarrow> string \<Rightarrow> pyval \<Rightarrow> exn + pyval" where
  \<comment> \<open>\<^verbatim>\<open>d.get(k, default)\<close>\<close>
  "dict_get (PDict kvs) k d = Inr (case map_of kvs k of Some v \<Rightarrow> v | None \<Rightarrow> d)"
| "dict_get v k d = Inl (OtherException ''object has no attribute get'')"

fun subscript :: "pyval \<Rightarrow> string \<Rightarrow> exn + pyval" where
  \<comment> \<open>\<^verbatim>\<open>d[k]\<close>\<close>
  "subscript (PDict kvs) k =
     (case map_of kvs k of Some v \<Rightarrow> Inr v | None \<Rightarrow> Inl (OtherException (quoted k)))"
| "subscript v k = Inl (OtherException ''object is not subscriptable by a string'')"

definition context_names :: "pyval \<Rightarrow> exn + pyval list" where
  \<comment> \<open>\<^verbatim>\<open>[ctx["name"] for ctx in kubeconfig.get("contexts", [])]\<close>\<close>
  "context_names kubeconfig =
     sbind (dict_get kubeconfig ''contexts'' (PList [])) (\<lambda>ctxs.
     sbind (iter ctxs) (\<lambda>xs. comprehend (\<lambda>ctx. subscript ctx ''name'') xs))"

definition connect_to_gke ::
  "'w exec \<Rightarrow> string \<Rightarrow> string \<Rightarrow> string \<Rightarrow> string \<Rightarrow> ('w, result) prog" where
  \<comment> \<open>\<open>kubeconfig_path\<close> is the value of \<^verbatim>\<open>os.path.expanduser('~/.kube/config')\<close>,
      which does not raise.\<close>
  "connect_to_gke exec kubeconfig_path project_id zone cluster_name =
     (let context_name = ''gke_'' @ project_id @ ''_'' @ zone @ ''_'' @ cluster_name;
          login =
            bnd (perform exec (Run
                   [''gcloud'', ''container'', ''clusters'', ''get-credentials'', cluster_name,
                    ''--zone='' @ zone, ''--project='' @ project_id])) (\<lambda>res.
            bnd (lift (getattr res ''stdout'')) (\<lambda>stdout.
            ret [(''success'', PBool True),
                 (''message'', PStr (''Kubeconfig updated. Logged into GKE cluster ''
                    @ quoted cluster_name @ ''.'')),
                 (''gcloud_output'', stdout)]))
      in
      try_except
        (bnd (perform exec (Lib ''os.path.exists'' [PStr kubeconfig_path])) (\<lambda>ex.
           if truthy ex then
             bnd (perform exec (Lib ''open'' [PStr kubeconfig_path, PStr ''r''])) (\<lambda>stream.
             bnd (perform exec (Lib ''yaml.safe_load'' [stream])) (\<lambda>kubeconfig.
             bnd (lift (context_names kubeconfig)) (\<lambda>existing_contexts.
               if PStr context_name \<in> set existing_contexts then
                 ret [(''success'', PBool True),
                      (''message'', PStr (''Already logged in. Context '' @ quoted context_name
                         @ '' exists in kubeconfig.''))]
               else login)))
           else login))
        (\<lambda>e. if is_FileNotFoundError e
              then ret (failure ''gcloud not found. Is Google Cloud SDK installed?'')
              else if is_CalledProcessError e
              then ret [(''success'', PBool False), (''error'', PStr (stderr_of e))]
              else ret (failure (str_exn e))))"

subsection \<open>Exposing a Deployment\<close>

definition fmt :: "string option \<Rightarrow> string" where
  \<comment> \<open>An optional string in an f-string.\<close>
  "fmt x = (case x of None \<Rightarrow> ''None'' | Some s \<Rightarrow> s)"

definition ticked :: "string \<Rightarrow> string" where
  "ticked s = CHR 0x60 # s @ [CHR 0x60]"

definition V1ServicePort :: "string \<Rightarrow> pyval \<Rightarrow> pyval \<Rightarrow> exn + pyval" where
  \<comment> \<open>The constructor of the client library: \<^verbatim>\<open>port\<close> is its one required field, and the
      constructor raises \<^verbatim>\<open>ValueError\<close> when it is \<^verbatim>\<open>None\<close>.\<close>
  "V1ServicePort protocol port target_port =
     (if port = PNone
      then Inl (ValueError (''Invalid value for '' @ ticked ''port'' @ '', must not be ''
             @ ticked ''None''))
      else Inr (PObj [(''protocol'', PStr protocol), (''port'', port),
             (''target_port'', target_port)]))"

definition V1Service ::
  "string option \<Rightarrow> string option \<Rightarrow> string option \<Rightarrow> pyval \<Rightarrow> string \<Rightarrow> pyval \<Rightarrow> pyval
     \<Rightarrow> string option \<Rightarrow> exn + pyval" where
  \<comment> \<open>\<^verbatim>\<open># 2. Define the Service object\<close>. An attribute the source does not pass is
      \<^verbatim>\<open>None\<close>; of those only \<^verbatim>\<open>cluster_ip\<close> is read again by a tool.\<close>
  "V1Service service_name namespace deployment_name selector_labels protocol port target_port
     service_type =
     sbind (V1ServicePort protocol port target_port) (\<lambda>service_port.
       Inr (PObj [(''api_version'', PStr ''v1''),
                  (''kind'', PStr ''Service''),
                  (''metadata'', PObj
                     [(''name'', opt_str service_name),
                      (''namespace'', opt_str namespace),
                      (''labels'', PDict [(''app'', opt_str deployment_name)])]),
                  (''spec'', PObj
                     [(''selector'', selector_labels),
                      (''ports'', PList [service_port]),
                      (''type'', opt_str service_type),
                      (''cluster_ip'', PNone)])]))"

definition is_ApiException :: "exn \<Rightarrow> bool" where
  "is_ApiException e = (case e of ApiException m st rs bd \<Rightarrow> True | _ \<Rightarrow> False)"

definition is_ImportError :: "exn \<Rightarrow> bool" where
  "is_ImportError e = (case e of ImportError m \<Rightarrow> True | _ \<Rightarrow> False)"

definition selector_of ::
  "'w exec \<Rightarrow> string option \<Rightarrow> string option \<Rightarrow> pyval \<Rightarrow> ('w, result + pyval) prog" where
  \<comment> \<open>\<^verbatim>\<open># 1. Get the Deployment to extract selector labels if not provided\<close>\<close>
  "selector_of exec deployment_name namespace selector_labels =
     try_except
       (bnd (perform exec (KubeApi ''read_namespaced_deployment''
               [opt_str deployment_name, opt_str namespace])) (\<lambda>deployment.
          if selector_labels = PNone then
            bnd (lift (getpath deployment [''spec'', ''selector'', ''match_labels''])) (\<lambda>labels.
              if \<not> truthy labels then
                raise_exn (ValueError (''No selector labels found for Deployment ''
                  @ quoted (fmt deployment_name)
                  @ '' or provided manually. Cannot create Service.''))
              else ret (Inr labels))
          else ret (Inr selector_labels)))
       (\<lambda>e. case e of
          ApiException m status reason body \<Rightarrow>
            if status = 404 then
              ret (Inl (failure (''Deployment '' @ quoted (fmt deployment_name)
                 @ '' not found in namespace '' @ quoted (fmt namespace) @ ''.'')))
            else ret (Inl (failure (''Error reading deployment: '' @ m)))
        | _ \<Rightarrow> ret (Inl (failure (''Failed to determine selector labels: '' @ str_exn e))))"

definition service_summary :: "pyval \<Rightarrow> exn + pyval" where
  \<comment> \<open>The \<^verbatim>\<open>"service"\<close> entry of the result, read from the API's answer.\<close>
  "service_summary created_service =
     sbind (fields_of created_service
        [(''name'', [''metadata'', ''name'']),
         (''namespace'', [''metadata'', ''namespace'']),
         (''type'', [''spec'', ''type'']),
         (''cluster_ip'', [''spec'', ''cluster_ip''])]) (\<lambda>fs.
     sbind (getpath created_service [''spec'', ''ports'']) (\<lambda>ports.
     sbind (iter ports) (\<lambda>ps.
     sbind (comprehend (\<lambda>p. sbind (fields_of p
              [(''port'', [''port'']), (''target_port'', [''target_port'']),
               (''protocol'', [''protocol''])]) (\<lambda>r. Inr (PDict r))) ps) (\<lambda>prows.
     sbind (getpath created_service [''spec'', ''selector'']) (\<lambda>selector.
       Inr (PDict (fs @ [(''ports'', PList prows), (''selector'', selector)])))))))"

definition create_or_patch ::
  "'w exec \<Rightarrow> string option \<Rightarrow> string option \<Rightarrow> pyval \<Rightarrow> ('w, pyval) prog" where
  \<comment> \<open>\<^verbatim>\<open># Check if service already exists\<close>, then patch or create.\<close>
  "create_or_patch exec service_name namespace service_body =
     bnd (try_except
            (perform exec (KubeApi ''read_namespaced_service''
               [opt_str service_name, opt_str namespace]))
            (\<lambda>e. case e of
               ApiException m status reason body \<Rightarrow>
                 if status \<noteq> 404 then raise_exn e else ret PNone
             | _ \<Rightarrow> raise_exn e)) (\<lambda>existing_service.
       if truthy existing_service then
         perform exec (KubeApi ''patch_namespaced_service''
           [opt_str service_name, opt_str namespace, service_body])
       else
         perform exec (KubeApi ''create_namespaced_service'' [opt_str namespace, service_body]))"

definition expose_deployment_with_service ::
  "'w exec \<Rightarrow> string option \<Rightarrow> string option \<Rightarrow> int option \<Rightarrow> string \<Rightarrow> string option
     \<Rightarrow> string option \<Rightarrow> int option \<Rightarrow> pyval \<Rightarrow> ('w, result) prog" where
  "expose_deployment_with_service exec deployment_name service_name target_port protocol
     service_type namespace port selector_labels =
     try_except
       (bnd (kube_client exec) (\<lambda>_.
        bnd (selector_of exec deployment_name namespace selector_labels) (\<lambda>r.
          case r of
            Inl returned \<Rightarrow> ret returned
          | Inr labels \<Rightarrow>
              let port' = (if port = None then opt_int target_port else opt_int port) in
              bnd (lift (V1Service service_name namespace deployment_name labels
                     protocol port' (opt_int target_port) service_type)) (\<lambda>service_body.
              try_except
                (bnd (create_or_patch exec service_name namespace service_body)
                   (\<lambda>created_service.
                 bnd (lift (service_summary created_service)) (\<lambda>summary.
                 ret [(''success'', PBool True),
                      (''message'', PStr (''Service '' @ quoted (fmt service_name)
                         @ '' of type '' @ quoted (fmt service_type)
                         @ '' created/updated successfully for Deployment ''
                         @ quoted (fmt deployment_name) @ ''.'')),
                      (''service'', summary)])))
                (\<lambda>e. case e of
                   ApiException m status reason body \<Rightarrow>
                     ret (failure (''Kubernetes API error: '' @ reason @ '' - '' @ body))
                 | _ \<Rightarrow> ret (failure (str_exn e)))))))
       (\<lambda>e. if is_ImportError e
             then ret (failure ''Kubernetes client library not installed.'')
             else ret (failure (str_exn e)))"

subsection \<open>The registered tools\<close>

text \<open>
  The server calls a registered tool by its name with the arguments of the request; a
  \<open>tool_call\<close> is one such request, with the defaults of the signature filled in.
\<close>

datatype tool_call =
    GetPods "string option"
  | GetNamespaces
  | GetServices "string option"
  | ExposeDeploymentWithService "string option" "string option" "int option" string
      "string option" "string option" "int option" pyval
  | GetNodes
  | GetConfigmaps "string option"
  | GetSecrets "string option"
  | InstallHelmChart string string string "string option" pyval
  | UpgradeHelmChart string string string "string option" pyval
  | UninstallHelmChart string string
  | GetRbacRoles "string option"
  | GetClusterRoles
  | GetEvents "string option"
  | GetResourceUsage "string option"
  | SwitchContext string
  | ConnectToGke string string string
  | GetCurrentContext
  | KubectlExplain string
  | GetApiResources
  | HealthCheck
  | GetPodEvents string string
  | CheckPodHealth string string
  | GetDeployments "string option"
  | CreateDeployment string string int string
  | DeleteResource string string string
  | GetLogs string string "string option" "int option"
  | PortForward string int int string
  | ScaleDeployment string int string

fun call_tool :: "'w exec \<Rightarrow> string \<Rightarrow> tool_call \<Rightarrow> ('w, result) prog" where
  "call_tool exec home (GetPods ns) = get_pods exec ns"
| "call_tool exec home GetNamespaces = get_namespaces exec"
| "call_tool exec home (GetServices ns) = get_services exec ns"
| "call_tool exec home (ExposeDeploymentWithService d sv tp pr ty ns po sel) =
     expose_deployment_with_service exec d sv tp pr ty ns po sel"
| "call_tool exec home GetNodes = get_nodes exec"
| "call_tool exec home (GetConfigmaps ns) = get_configmaps exec ns"
| "call_tool exec home (GetSecrets ns) = get_secrets exec ns"
| "call_tool exec home (InstallHelmChart n c ns repo vals) = install_helm_chart exec n c ns repo vals"
| "call_tool exec home (UpgradeHelmChart n c ns repo vals) = upgrade_helm_chart exec n c ns repo vals"
| "call_tool exec home (UninstallHelmChart n ns) = uninstall_helm_chart exec n ns"
| "call_tool exec home (GetRbacRoles ns) = get_rbac_roles exec ns"
| "call_tool exec home GetClusterRoles = get_cluster_roles exec"
| "call_tool exec home (GetEvents ns) = get_events exec ns"
| "call_tool exec home (GetResourceUsage ns) = get_resource_usage exec ns"
| "call_tool exec home (SwitchContext c) = switch_context exec c"
| "call_tool exec home (ConnectToGke p z c) = connect_to_gke exec home p z c"
| "call_tool exec home GetCurrentContext = get_current_context exec"
| "call_tool exec home (KubectlExplain r) = kubectl_explain exec r"
| "call_tool exec home GetApiResources = get_api_resources exec"
| "call_tool exec home HealthCheck = health_check exec"
| "call_tool exec home (GetPodEvents p ns) = get_pod_events exec p ns"
| "call_tool exec home (CheckPodHealth p ns) = check_pod_health exec p ns"
| "call_tool exec home (GetDeployments ns) = get_deployments exec ns"
| "call_tool exec home (CreateDeployment n i r ns) = create_deployment exec n i r ns"
| "call_tool exec home (DeleteResource t n ns) = delete_resource exec t n ns"
| "call_tool exec home (GetLogs p ns c t) = get_logs exec p ns c t"
| "call_tool exec home (PortForward p l q ns) = port_forward exec p l q ns"
| "call_tool exec home (ScaleDeployment n r ns) = scale_deployment exec n r ns"

section \<open>What is observed of a run\<close>

text \<open>
  A result is an envelope when it has the key \<^verbatim>\<open>success\<close>, and with
  \<^verbatim>\<open>"success": False\<close> also an \<^verbatim>\<open>error\<close> message. A request is a call of the
  Kubernetes API or the start of an external command. \<open>spawned\<close> lists the commands a
  run started without waiting for them. An exception is recovered when the source
  catches it and goes on by design: status 404 when reading the Service to expose, a
  failed \<^verbatim>\<open>kubectl top ... -o json\<close> or its unparsable output, a failed
  \<^verbatim>\<open>kubectl get namespace\<close>.
\<close>

definition succeeded :: "result \<Rightarrow> bool" where
  "succeeded d = (map_of d ''success'' = Some (PBool True))"

definition envelope :: "result \<Rightarrow> bool" where
  "envelope d =
     (map_of d ''success'' = Some (PBool True) \<or>
      map_of d ''success'' = Some (PBool False) \<and> (\<exists>m. map_of d ''error'' = Some (PStr m)))"

definition is_request :: "call \<Rightarrow> bool" where
  "is_request c =
     (case c of KubeApi m args \<Rightarrow> True | CheckOutput cmd \<Rightarrow> True | Run cmd \<Rightarrow> True
      | Popen cmd \<Rightarrow> True | _ \<Rightarrow> False)"

definition requests :: "trace \<Rightarrow> nat" where
  "requests tr = length (filter (\<lambda>x. is_request (fst x)) tr)"

fun spawned :: "trace \<Rightarrow> string list list" where
  "spawned [] = []"
| "spawned (x # xs) =
     (case x of (Popen cmd, Inr p) \<Rightarrow> cmd # spawned xs | _ \<Rightarrow> spawned xs)"

definition recovers :: "call \<Rightarrow> exn \<Rightarrow> bool" where
  "recovers c e =
     (case c of
        KubeApi m args \<Rightarrow>
          m = ''read_namespaced_service'' \<and>
          (case e of ApiException msg status reason body \<Rightarrow> status = 404 | _ \<Rightarrow> False)
      | CheckOutput cmd \<Rightarrow>
          take 3 cmd = [''kubectl'', ''get'', ''namespace''] \<and> is_CalledProcessError e \<or>
          take 2 cmd = [''kubectl'', ''top''] \<and> drop (length cmd - 2) cmd = [''-o'', ''json'']
            \<and> (is_CalledProcessError e \<or> is_JSONDecodeError e)
      | Lib f args \<Rightarrow> f = ''json.loads'' \<and> (is_CalledProcessError e \<or> is_JSONDecodeError e)
      | _ \<Rightarrow> False)"

definition unrecovered :: "call \<times> outcome \<Rightarrow> bool" where
  "unrecovered x = (case snd x of Inl e \<Rightarrow> \<not> recovers (fst x) e | Inr v \<Rightarrow> False)"

definition dirty :: "trace \<Rightarrow> bool" where
  "dirty tr = list_ex unrecovered tr"

text \<open>
  \<open>run_sat m P\<close>: from every state, \<open>m\<close> ends with an outcome and an extension of the
  trace that satisfy \<open>P\<close>. \<open>post mr G k\<close> is the shape of \<open>P\<close> used for the tools: an
  exception escapes only if \<open>mr\<close>, a value \<open>v\<close> satisfies \<open>G v d\<close> where \<open>d\<close> tells whether
  an unrecovered exception was raised on the way, at most \<open>k\<close> requests were made and no
  command was left running.
\<close>

definition run_sat :: "('w, 'a) prog \<Rightarrow> (exn + 'a \<Rightarrow> trace \<Rightarrow> bool) \<Rightarrow> bool" where
  "run_sat m P = (\<forall>w tr. \<exists>r w' add. m (w, tr) = (r, (w', tr @ add)) \<and> P r add)"

definition post :: "bool \<Rightarrow> ('a \<Rightarrow> bool \<Rightarrow> bool) \<Rightarrow> nat \<Rightarrow> exn + 'a \<Rightarrow> trace \<Rightarrow> bool" where
  "post mr G k r add =
     ((\<forall>e. r = Inl e \<longrightarrow> mr) \<and> (\<forall>v. r = Inr v \<longrightarrow> G v (dirty add)) \<and>
      requests add \<le> k \<and> spawned add = [])"

definition clean :: "'a \<Rightarrow> bool \<Rightarrow> bool" where
  "clean v d = (\<not> d)"

definition enveloped :: "result \<Rightarrow> bool \<Rightarrow> bool" where
  "enveloped r d = (envelope r \<and> (d \<longrightarrow> \<not> succeeded r))"

definition returned_or :: "result + 'a \<Rightarrow> bool \<Rightarrow> bool" where
  "returned_or x d = (case x of Inl r \<Rightarrow> enveloped r d | Inr v \<Rightarrow> \<not> d)"

text \<open>
  The largest number of requests one call of a tool can make, whether the tool starts with
  the availability check that runs outside its \<^verbatim>\<open>try\<close>, and the command a tool starts in
  the background.
\<close>

fun max_requests :: "tool_call \<Rightarrow> nat" where
  "max_requests (ScaleDeployment n r ns) = 2"
| "max_requests (UninstallHelmChart n ns) = 2"
| "max_requests (ExposeDeploymentWithService d sv tp pr ty ns po sel) = 3"
| "max_requests (UpgradeHelmChart n c ns repo vals) = 4"
| "max_requests (GetResourceUsage ns) = 5"
| "max_requests (InstallHelmChart n c ns repo vals) = 6"
| "max_requests req = 1"

fun prechecked :: "tool_call \<Rightarrow> bool" where
  "prechecked (UninstallHelmChart n ns) = True"
| "prechecked (UpgradeHelmChart n c ns repo vals) = True"
| "prechecked (GetResourceUsage ns) = True"
| "prechecked (InstallHelmChart n c ns repo vals) = True"
| "prechecked req = False"

fun background_command :: "tool_call \<Rightarrow> string list option" where
  "background_command (PortForward pod_name local_port pod_port namespace) =
     Some [''kubectl'', ''port-forward'', ''pod/'' @ pod_name,
           str_int local_port @ '':'' @ str_int pod_port, ''-n'', namespace]"
| "background_command req = None"

section \<open>Worlds for concrete runs\<close>

text \<open>
  \<open>healthy\<close>: every call succeeds. \<open>fresh\<close>: the namespace asked for does not exist yet.
  \<open>no_json\<close>: \<^verbatim>\<open>kubectl top\<close> does not know \<^verbatim>\<open>-o json\<close>. \<open>broken_helm\<close>: the helm found
  on the path cannot be executed.
\<close>

definition healthy :: "unit exec" where
  "healthy c u =
     (case c of
        Lib f args \<Rightarrow> (Inr (PStr ''/usr/local/bin/tool''), u)
      | Popen cmd \<Rightarrow> (Inr (PObj [(''pid'', PInt 4242)]), u)
      | _ \<Rightarrow> (Inr (PStr ''ok''), u))"

definition fresh :: "unit exec" where
  "fresh c u =
     (case c of
        CheckOutput cmd \<Rightarrow>
          (if take 3 cmd = [''kubectl'', ''get'', ''namespace'']
           then Inl (CalledProcessError ''Command returned non-zero exit status 1.''
                  ''Error from server (NotFound): namespaces not found'')
           else Inr (PStr ''ok''), u)
      | Lib f args \<Rightarrow> (Inr (PStr ''/usr/local/bin/helm''), u)
      | _ \<Rightarrow> (Inr PNone, u))"

definition no_json :: "unit exec" where
  "no_json c u =
     (case c of
        CheckOutput cmd \<Rightarrow>
          (if ''json'' \<in> set cmd
           then Inl (CalledProcessError ''Command returned non-zero exit status 1.''
                  ''error: unknown shorthand flag'')
           else Inr (PStr ''NAME CPU MEMORY''), u)
      | Lib f args \<Rightarrow> (Inr (PStr ''/usr/local/bin/kubectl''), u)
      | _ \<Rightarrow> (Inr PNone, u))"

definition broken_helm :: "unit exec" where
  "broken_helm c u =
     (case c of
        CheckOutput cmd \<Rightarrow> (Inl (OtherException ''[Errno 8] Exec format error: helm''), u)
      | Lib f args \<Rightarrow> (Inr (PStr ''/usr/local/bin/helm''), u)
      | _ \<Rightarrow> (Inr PNone, u))"

definition no_kubeconfig :: "unit exec" where
  "no_kubeconfig c u =
     (case c of
        LoadKubeConfig \<Rightarrow>
          (Inl (OtherException ''Invalid kube-config file. No configuration found.''), u)
      | _ \<Rightarrow> (Inr PNone, u))"

fun run_steps :: "('q \<Rightarrow> call \<times> outcome \<Rightarrow> 'q option) \<Rightarrow> 'q \<Rightarrow> trace \<Rightarrow> 'q option" where
  "run_steps st q [] = Some q"
| "run_steps st q (x # xs) = (case st q x of None \<Rightarrow> None | Some q' \<Rightarrow> run_steps st q' xs)"

definition scan ::
  "('q \<Rightarrow> call \<times> outcome \<Rightarrow> 'q option) \<Rightarrow> ('q \<Rightarrow> bool) \<Rightarrow> 'q \<Rightarrow> ('a \<Rightarrow> 'q \<Rightarrow> bool)
     \<Rightarrow> exn + 'a \<Rightarrow> trace \<Rightarrow> bool" where
  "scan st I q G r add =
     (\<exists>q'. run_steps st q add = Some q' \<and> I q' \<and> (\<forall>v. r = Inr v \<longrightarrow> G v q'))"

definition anything :: "'a \<Rightarrow> 'q \<Rightarrow> bool" where
  "anything v q = True"

definition only_if :: "(call \<times> outcome \<Rightarrow> bool) \<Rightarrow> 'q \<Rightarrow> call \<times> outcome \<Rightarrow> 'q option" where
  "only_if P q x = (if P x then Some q else None)"

definition ignores :: "('q \<Rightarrow> call \<times> outcome \<Rightarrow> 'q option) \<Rightarrow> 'q \<Rightarrow> call \<Rightarrow> bool" where
  "ignores st q c = (\<forall>r. st q (c, r) = Some q)"

definition stays :: "'q \<Rightarrow> 'q \<Rightarrow> bool" where
  "stays q q' = (q' = q)"

definition prefixed :: "string option \<Rightarrow> string \<Rightarrow> string" where
  "prefixed repo chart =
     (case repo of
        None \<Rightarrow> chart
      | Some r \<Rightarrow>
          if r \<noteq> [] \<and> CHR ''/'' \<notin> set chart then hd (split_on CHR ''='' r) @ ''/'' @ chart
          else chart)"

definition passes_chart :: "string \<Rightarrow> string \<Rightarrow> string \<Rightarrow> call \<times> outcome \<Rightarrow> bool" where
  "passes_chart verb name chart x =
     (case fst x of
        CheckOutput cmd \<Rightarrow>
          take 2 cmd = [''helm'', verb] \<longrightarrow> take 4 cmd = [''helm'', verb, name, chart]
      | _ \<Rightarrow> True)"


datatype ns_state = Unchecked | Missing | Failed | Ready



definition bare :: "unit exec" where
  "bare c u = (Inr PNone, u)"

definition json_fails :: "'w exec \<Rightarrow> string list \<Rightarrow> 'w \<Rightarrow> ('w \<times> trace) option" where
  "json_fails exec cmd w =
     (case exec (CheckOutput cmd) w of
        (Inl e, w1) \<Rightarrow>
          if is_CalledProcessError e then Some (w1, [(CheckOutput cmd, Inl e)]) else None
      | (Inr out, w1) \<Rightarrow>
          (case exec (Lib ''json.loads'' [out]) w1 of
             (Inl e, w2) \<Rightarrow>
               if is_JSONDecodeError e
               then Some (w2, [(CheckOutput cmd, Inr out), (Lib ''json.loads'' [out], Inl e)])
               else None
           | (Inr data, w2) \<Rightarrow> None))"

definition no_metrics :: "unit exec" where
  "no_metrics c u =
     (case c of
        CheckOutput cmd \<Rightarrow>
          (if take 2 cmd = [''kubectl'', ''top'']
           then Inl (CalledProcessError ''Command returned non-zero exit status 1.''
                  ''error: Metrics API not available'')
           else Inr (PStr ''ok''), u)
      | Lib f args \<Rightarrow> (Inr (PStr ''/usr/local/bin/kubectl''), u)
      | _ \<Rightarrow> (Inr PNone, u))"

fun precheck :: "tool_call \<Rightarrow> string option" where
  "precheck (UninstallHelmChart n ns) = Some ''helm''"
| "precheck (UpgradeHelmChart n c ns repo vals) = Some ''helm''"
| "precheck (InstallHelmChart n c ns repo vals) = Some ''helm''"
| "precheck (GetResourceUsage ns) = Some ''kubectl''"
| "precheck req = None"

definition no_release :: "unit exec" where
  "no_release c u =
     (case c of
        CheckOutput cmd \<Rightarrow>
          (if take 2 cmd = [''helm'', ''uninstall'']
           then Inl (CalledProcessError ''Command returned non-zero exit status 1.''
                  ''Error: uninstall: Release not loaded: web: release: not found'')
           else Inr (PStr ''ok''), u)
      | Lib f args \<Rightarrow> (Inr (PStr ''/usr/local/bin/helm''), u)
      | _ \<Rightarrow> (Inr PNone, u))"

definition no_node_metrics :: "unit exec" where
  "no_node_metrics c u =
     (case c of
        CheckOutput cmd \<Rightarrow>
          (if ''json'' \<in> set cmd \<or> ''nodes'' \<in> set cmd
           then Inl (CalledProcessError ''Command returned non-zero exit status 1.''
                  ''error: metrics not available yet'')
           else Inr (PStr ''NAME CPU MEMORY''), u)
      | Lib f args \<Rightarrow> (Inr (PStr ''/usr/local/bin/kubectl''), u)
      | _ \<Rightarrow> (Inr PNone, u))"

definition usage_failure :: "exn \<Rightarrow> result" where
  \<comment> \<open>What the two outer handlers of \<open>get_resource_usage\<close> return.\<close>
  "usage_failure e =
     (if is_CalledProcessError e then failure (''Failed to get resource usage: '' @ stderr_of e)
      else failure (''Unexpected error: '' @ str_exn e))"



section \<open>Rules for runs\<close>

lemma requests_append: "requests (a @ b) = requests a + requests b"
  by (simp add: requests_def)

lemma spawned_append: "spawned (a @ b) = spawned a @ spawned b"
  by (induction a) (auto split: call.splits sum.splits)

lemma dirty_append: "dirty (a @ b) = (dirty a \<or> dirty b)"
  by (simp add: dirty_def)

lemma dirty_Nil: "\<not> dirty []"
  by (simp add: dirty_def)

lemma requests_Nil: "requests [] = 0"
  by (simp add: requests_def)

lemma run_sat_ret: "G v False \<Longrightarrow> run_sat (ret v) (post mr G k)"
  by (simp add: run_sat_def ret_def post_def dirty_Nil requests_Nil)

lemma run_sat_raise: "run_sat (raise_exn e) (post True G k)"
  by (simp add: run_sat_def raise_exn_def post_def requests_Nil)

lemma run_sat_lift: "run_sat (lift x) (post True clean k)"
  by (simp add: run_sat_def lift_def post_def dirty_Nil requests_Nil clean_def)

lemma run_sat_perform:
  "\<not> (\<exists>cmd. c = Popen cmd) \<Longrightarrow> run_sat (perform exec c) (post True clean (Suc 0))"
  apply (clarsimp simp: run_sat_def perform_def post_def clean_def split: prod.splits)
  apply (auto simp: dirty_def unrecovered_def requests_def split: call.splits)
  done

lemma run_sat_bnd:
  assumes m: "run_sat m (post mr G1 k1)"
    and f: "\<And>v. run_sat (f v) (post mr (G2 v) k2)"
    and G: "\<And>v u d1 d2. G1 v d1 \<Longrightarrow> G2 v u d2 \<Longrightarrow> G3 u (d1 \<or> d2)"
    and k: "k1 + k2 \<le> k"
  shows "run_sat (bnd m f) (post mr G3 k)"
  unfolding run_sat_def
proof (intro allI)
  fix w tr
  from m obtain r w1 a1 where 1: "m (w, tr) = (r, (w1, tr @ a1))" and p1: "post mr G1 k1 r a1"
    unfolding run_sat_def by blast
  show "\<exists>r w' add. bnd m f (w, tr) = (r, w', tr @ add) \<and> post mr G3 k r add"
  proof (cases r)
    case (Inl e)
    with 1 p1 k show ?thesis by (auto simp: bnd_def post_def)
  next
    case (Inr v)
    from f[of v] obtain r2 w2 a2 where 2: "f v (w1, tr @ a1) = (r2, (w2, (tr @ a1) @ a2))"
      and p2: "post mr (G2 v) k2 r2 a2"
      unfolding run_sat_def by blast
    have "bnd m f (w, tr) = (r2, (w2, tr @ (a1 @ a2)))"
      using 1 2 Inr by (simp add: bnd_def)
    moreover have "post mr G3 k r2 (a1 @ a2)"
      using p1 p2 Inr k G[of v]
      by (auto simp: post_def requests_append spawned_append dirty_append)
    ultimately show ?thesis by blast
  qed
qed

lemma run_sat_try:
  assumes m: "run_sat m (post mr1 G1 k1)"
    and h: "\<And>e. run_sat (h e) (post mr G2 k2)"
    and G: "\<And>v d. G1 v d \<Longrightarrow> G3 v d"
    and G': "\<And>u d d2. G2 u d2 \<Longrightarrow> G3 u d"
    and k: "k1 + k2 \<le> k"
  shows "run_sat (try_except m h) (post mr G3 k)"
  unfolding run_sat_def
proof (intro allI)
  fix w tr
  from m obtain r w1 a1 where 1: "m (w, tr) = (r, (w1, tr @ a1))" and p1: "post mr1 G1 k1 r a1"
    unfolding run_sat_def by blast
  show "\<exists>r w' add. try_except m h (w, tr) = (r, w', tr @ add) \<and> post mr G3 k r add"
  proof (cases r)
    case (Inr v)
    with 1 p1 k G show ?thesis by (auto simp: try_except_def post_def)
  next
    case (Inl e)
    from h[of e] obtain r2 w2 a2 where 2: "h e (w1, tr @ a1) = (r2, (w2, (tr @ a1) @ a2))"
      and p2: "post mr G2 k2 r2 a2"
      unfolding run_sat_def by blast
    have "try_except m h (w, tr) = (r2, (w2, tr @ (a1 @ a2)))"
      using 1 2 Inl by (simp add: try_except_def)
    moreover have "post mr G3 k r2 (a1 @ a2)"
      using p1 p2 Inl k G'
      by (auto simp: post_def requests_append spawned_append dirty_append)
    ultimately show ?thesis by blast
  qed
qed

lemma post_weaken:
  "run_sat m (post mr G k) \<Longrightarrow> (mr \<Longrightarrow> mr') \<Longrightarrow> (\<And>v d. G v d \<Longrightarrow> G' v d) \<Longrightarrow> k \<le> k'
     \<Longrightarrow> run_sat m (post mr' G' k')"
  unfolding run_sat_def post_def by (meson le_trans)

lemma post_le: "run_sat m (post mr G k) \<Longrightarrow> k \<le> k' \<Longrightarrow> run_sat m (post mr G k')"
  using post_weaken[of m mr G k mr G k'] by simp

lemma post_may_raise: "run_sat m (post mr G k) \<Longrightarrow> run_sat m (post True G k)"
  using post_weaken[of m mr G k True G k] by simp

lemma bnd_clean:
  "run_sat m (post mr clean k1) \<Longrightarrow> (\<And>v. run_sat (f v) (post mr G k2))
     \<Longrightarrow> run_sat (bnd m f) (post mr G (k1 + k2))"
  using run_sat_bnd[where ?G1.0 = clean and ?G2.0 = "\<lambda>v. G" and ?G3.0 = G and m = m and f = f
      and mr = mr and ?k1.0 = k1 and ?k2.0 = k2 and k = "k1 + k2"]
  by (simp add: clean_def)

lemma bnd_returned:
  "run_sat m (post mr returned_or k1) \<Longrightarrow> (\<And>v. run_sat (g v) (post mr enveloped k2))
     \<Longrightarrow> run_sat (bnd m (\<lambda>r. case r of Inl x \<Rightarrow> ret x | Inr v \<Rightarrow> g v)) (post mr enveloped (k1 + k2))"
  apply (rule run_sat_bnd[where ?G1.0 = returned_or and ?k1.0 = k1 and ?k2.0 = k2
        and ?G2.0 = "\<lambda>r u d. case r of Inl x \<Rightarrow> u = x \<and> \<not> d | Inr v \<Rightarrow> enveloped u d"])
     apply assumption
  subgoal for v
    by (cases v) (simp_all add: run_sat_def ret_def post_def dirty_Nil requests_Nil)
  subgoal for v u d1 d2
    by (cases v) (auto simp: returned_or_def)
  apply simp
  done

lemma ret_sat: "G v False \<Longrightarrow> run_sat (ret v) (post mr G 0)"
  by (rule run_sat_ret)

lemma lift_sat: "run_sat (lift x) (post True clean 0)"
  by (rule run_sat_lift)

lemma perform_request:
  "\<not> (\<exists>cmd. c = Popen cmd) \<Longrightarrow> run_sat (perform exec c) (post True clean (Suc 0))"
  by (rule run_sat_perform)

lemma perform_other:
  "\<not> is_request c \<Longrightarrow> run_sat (perform exec c) (post True clean 0)"
  apply (clarsimp simp: run_sat_def perform_def post_def clean_def split: prod.splits)
  apply (auto simp: dirty_def unrecovered_def requests_def is_request_def split: call.splits)
  done

lemma if_sat:
  "run_sat m1 (post mr G k1) \<Longrightarrow> run_sat m2 (post mr G k2)
     \<Longrightarrow> run_sat (if b then m1 else m2) (post mr G (max k1 k2))"
  by (auto intro: post_le)

lemma try_failure:
  "run_sat m (post mr1 enveloped k) \<Longrightarrow> (\<And>e. envelope (g e) \<and> \<not> succeeded (g e))
     \<Longrightarrow> run_sat (try_except m (\<lambda>e. ret (g e))) (post False enveloped k)"
  apply (rule post_le)
   apply (rule run_sat_try[where ?G1.0 = enveloped and ?k1.0 = k and ?k2.0 = 0
        and ?G2.0 = "\<lambda>u d. envelope u \<and> \<not> succeeded u"])
       apply assumption
      apply (rule ret_sat, simp)
     apply assumption
    apply (simp add: enveloped_def)
   apply (rule order_refl)
  apply simp
  done

lemma try_failure_reraise:
  "run_sat m (post mr1 G k) \<Longrightarrow> (\<And>e d. c e \<Longrightarrow> G (g e) d)
     \<Longrightarrow> run_sat (try_except m (\<lambda>e. if c e then ret (g e) else raise_exn e)) (post True G k)"
  apply (rule post_le)
   apply (rule run_sat_try[where ?G1.0 = G and ?k1.0 = k and ?k2.0 = 0
        and ?G2.0 = "\<lambda>u d. \<forall>d'. G u d'"])
       apply assumption
  subgoal for e
    by (cases "c e") (auto simp: run_sat_def ret_def raise_exn_def post_def dirty_Nil requests_Nil)
     apply assumption
    apply simp
   apply (rule order_refl)
  apply simp
  done

lemma envelope_failure: "envelope (failure m) \<and> \<not> succeeded (failure m)"
  by (simp add: envelope_def succeeded_def failure_def)

lemma enveloped_failure: "enveloped (failure m) d"
  by (simp add: enveloped_def envelope_failure)

lemma enveloped_success: "enveloped ((''success'', PBool True) # rest) False"
  by (simp add: enveloped_def envelope_def)

lemma kube_client_sat: "run_sat (kube_client exec) (post True clean 0)"
  unfolding kube_client_def
  apply (rule post_le)
   apply (rule bnd_clean)
    apply (rule perform_other, simp add: is_request_def)
   apply (rule perform_other, simp add: is_request_def)
  apply simp
  done

lemma list_call_sat: "run_sat (list_call exec ns a b) (post True clean (Suc 0))"
  unfolding list_call_def
  apply (rule post_le)
   apply (rule if_sat)
    apply (rule perform_request, simp)
   apply (rule perform_request, simp)
  apply simp
  done

lemma ret_inject: "(ret x = ret y) = (x = y)"
  by (auto simp: ret_def fun_eq_iff)

lemma try_total:
  assumes m: "run_sat m (post mr1 G k)"
    and h: "\<And>e. \<exists>x. h e = ret x \<and> (\<forall>d. G x d)"
  shows "run_sat (try_except m h) (post False G k)"
proof -
  have "run_sat (try_except m h) (post False G (k + 0))"
  proof (rule run_sat_try[where ?G1.0 = G and ?G2.0 = "\<lambda>u d. \<forall>d'. G u d'", OF m])
    fix e
    from h[of e] obtain x where "h e = ret x" and "\<forall>d. G x d" by blast
    then show "run_sat (h e) (post False (\<lambda>u d. \<forall>d'. G u d') 0)"
      by (simp add: ret_sat)
  qed simp_all
  then show ?thesis by simp
qed

lemma try_reraise:
  assumes m: "run_sat m (post mr1 G k)"
    and h: "\<And>e. h e = raise_exn e \<or> (\<exists>x. h e = ret x \<and> (\<forall>d. G x d))"
  shows "run_sat (try_except m h) (post True G k)"
proof -
  have "run_sat (try_except m h) (post True G (k + 0))"
  proof (rule run_sat_try[where ?G1.0 = G and ?G2.0 = "\<lambda>u d. \<forall>d'. G u d'", OF m])
    fix e
    from h[of e] show "run_sat (h e) (post True (\<lambda>u d. \<forall>d'. G u d') 0)"
      by (auto simp: ret_sat run_sat_raise)
  qed simp_all
  then show ?thesis by simp
qed

lemma try_else_sat:
  assumes m: "run_sat m (post mr1 clean k1)"
    and h: "\<And>e. h e = raise_exn e \<or> (\<exists>x. h e = ret x \<and> (\<forall>d. G x d))"
    and k: "\<And>v. run_sat (f v) (post mr2 G k2)"
  shows "run_sat (try_else m h f) (post True G (k1 + k2))"
  unfolding run_sat_def
proof (intro allI)
  fix w tr
  from m obtain r w1 a1 where 1: "m (w, tr) = (r, (w1, tr @ a1))" and p1: "post mr1 clean k1 r a1"
    unfolding run_sat_def by blast
  show "\<exists>r w' add. try_else m h f (w, tr) = (r, w', tr @ add) \<and> post True G (k1 + k2) r add"
  proof (cases r)
    case (Inl e)
    from h[of e] show ?thesis
    proof
      assume "h e = raise_exn e"
      with 1 p1 Inl show ?thesis by (auto simp: try_else_def raise_exn_def post_def)
    next
      assume "\<exists>x. h e = ret x \<and> (\<forall>d. G x d)"
      with 1 p1 Inl show ?thesis by (auto simp: try_else_def ret_def post_def)
    qed
  next
    case (Inr v)
    from k[of v] obtain r2 w2 a2 where 2: "f v (w1, tr @ a1) = (r2, (w2, (tr @ a1) @ a2))"
      and p2: "post mr2 G k2 r2 a2"
      unfolding run_sat_def by blast
    have "try_else m h f (w, tr) = (r2, (w2, tr @ (a1 @ a2)))"
      using 1 2 Inr by (simp add: try_else_def)
    moreover have "post True G (k1 + k2) r2 (a1 @ a2)"
      using p1 p2 Inr
      by (auto simp: post_def requests_append spawned_append dirty_append clean_def)
    ultimately show ?thesis by blast
  qed
qed

lemma try_finally_sat:
  assumes m: "run_sat m (post mr1 G k1)"
    and c: "run_sat c (post mr2 clean k2)"
  shows "run_sat (try_finally m c) (post True G (k1 + k2))"
  unfolding run_sat_def
proof (intro allI)
  fix w tr
  from m obtain r w1 a1 where 1: "m (w, tr) = (r, (w1, tr @ a1))" and p1: "post mr1 G k1 r a1"
    unfolding run_sat_def by blast
  from c obtain r2 w2 a2 where 2: "c (w1, tr @ a1) = (r2, (w2, (tr @ a1) @ a2))"
    and p2: "post mr2 clean k2 r2 a2"
    unfolding run_sat_def by blast
  show "\<exists>r w' add. try_finally m c (w, tr) = (r, w', tr @ add) \<and> post True G (k1 + k2) r add"
  proof (cases r2)
    case (Inl e)
    with 1 2 p1 p2 have "try_finally m c (w, tr) = (Inl e, (w2, tr @ (a1 @ a2)))"
      by (simp add: try_finally_def)
    moreover have "post True G (k1 + k2) (Inl e) (a1 @ a2)"
      using p1 p2 by (auto simp: post_def requests_append spawned_append)
    ultimately show ?thesis by blast
  next
    case (Inr u)
    with 1 2 have "try_finally m c (w, tr) = (r, (w2, tr @ (a1 @ a2)))"
      by (simp add: try_finally_def)
    moreover have "post True G (k1 + k2) r (a1 @ a2)"
      using p1 p2 Inr by (auto simp: post_def requests_append spawned_append dirty_append clean_def)
    ultimately show ?thesis by blast
  qed
qed

lemma bnd_check:
  assumes m: "run_sat m (post True (\<lambda>b d. b \<longrightarrow> \<not> d) k1)"
    and b: "run_sat body (post mr enveloped k2)"
  shows "run_sat (bnd m (\<lambda>a. if \<not> a then ret (failure msg) else body)) (post True enveloped (k1 + k2))"
proof (rule run_sat_bnd[where ?G2.0 = "\<lambda>v u d. if v then enveloped u d else (\<forall>d'. enveloped u d')", OF m])
  fix v
  show "run_sat (if \<not> v then ret (failure msg) else body)
          (post True (\<lambda>u d. if v then enveloped u d else (\<forall>d'. enveloped u d')) k2)"
  proof (cases v)
    case True
    then show ?thesis using post_may_raise[OF b] by simp
  next
    case False
    then show ?thesis
      using post_le[OF ret_sat[of "\<lambda>u d. \<forall>d'. enveloped u d'" "failure msg" True], of k2]
      by (simp add: enveloped_failure)
  qed
next
  fix v u d1 d2
  assume "v \<longrightarrow> \<not> d1" and "if v then enveloped u d2 else (\<forall>d'. enveloped u d')"
  then show "enveloped u (d1 \<or> d2)" by (cases v) auto
qed simp

lemma check_tool_availability_sat:
  "run_sat (check_tool_availability exec t) (post True (\<lambda>b d. b \<longrightarrow> \<not> d) (Suc 0))"
  unfolding check_tool_availability_def
  apply (rule post_le)
   apply (rule try_reraise[where G = "\<lambda>b d. b \<longrightarrow> \<not> d"])
    apply (rule run_sat_bnd[where ?G1.0 = clean and ?G2.0 = "\<lambda>v b d. b \<longrightarrow> \<not> d"
        and ?k1.0 = 0 and ?k2.0 = "Suc 0" and k = "Suc 0"])
       apply (rule perform_other, simp add: is_request_def)
      apply (rule post_le)
       apply (rule if_sat, rule ret_sat, simp)
       apply (rule if_sat)
        apply (rule post_le, rule run_sat_bnd[where ?G1.0 = clean and ?G2.0 = "\<lambda>v b d. b \<longrightarrow> \<not> d"
          and ?k1.0 = "Suc 0" and ?k2.0 = 0 and k = "Suc 0"])
            apply (rule perform_request, simp)
           apply (rule ret_sat, simp)
          apply (simp add: clean_def)
         apply simp
        apply (rule order_refl)
       apply (rule if_sat)
        apply (rule post_le, rule run_sat_bnd[where ?G1.0 = clean and ?G2.0 = "\<lambda>v b d. b \<longrightarrow> \<not> d"
          and ?k1.0 = "Suc 0" and ?k2.0 = 0 and k = "Suc 0"])
            apply (rule perform_request, simp)
           apply (rule ret_sat, simp)
          apply (simp add: clean_def)
         apply simp
        apply (rule order_refl)
       apply (rule ret_sat, simp)
      apply simp
     apply (simp add: clean_def)
    apply simp
   apply (auto simp: ret_inject)
  done

lemmas run_defs = run_sat_def try_except_def bnd_def perform_def ret_def raise_exn_def lift_def
lemmas post_defs = post_def clean_def dirty_def unrecovered_def requests_def is_request_def

lemma json_or_text_sat:
  assumes "take 2 jc = [''kubectl'', ''top'']" and "drop (length jc - 2) jc = [''-o'', ''json'']"
  shows "run_sat (json_or_text exec jc tc) (post True clean 2)"
  unfolding json_or_text_def run_defs
  using assms
  by (auto simp: post_defs recovers_def split: prod.splits sum.splits)

lemma ensure_namespace_sat:
  "run_sat (ensure_namespace exec ns) (post True returned_or 2)"
  unfolding ensure_namespace_def run_defs
  by (auto simp: post_defs recovers_def returned_or_def enveloped_failure split: prod.splits sum.splits)

lemma create_or_patch_sat:
  "run_sat (create_or_patch exec sv ns body) (post True clean 2)"
  unfolding create_or_patch_def run_defs
  by (auto simp: post_defs recovers_def split: prod.splits sum.splits exn.splits)

lemma write_values_sat: "run_sat (write_values exec vals cmd) (post True clean 0)"
  unfolding write_values_def
  apply (rule post_le)
   apply (rule if_sat)
    apply (rule bnd_clean, rule perform_other, simp add: is_request_def)
    apply (rule bnd_clean, rule perform_other, simp add: is_request_def)
    apply (rule bnd_clean, rule lift_sat)
    apply (rule bnd_clean, rule lift_sat)
    apply (rule ret_sat, simp add: clean_def)
   apply (rule ret_sat, simp add: clean_def)
  apply simp
  done

lemma remove_values_sat: "run_sat (remove_values exec vf) (post True clean 0)"
  unfolding remove_values_def
  apply (rule post_le)
   apply (rule if_sat)
    apply (rule bnd_clean, rule perform_other, simp add: is_request_def)
    apply (rule if_sat)
     apply (rule bnd_clean, rule perform_other, simp add: is_request_def)
     apply (rule ret_sat, simp add: clean_def)
    apply (rule ret_sat, simp add: clean_def)
   apply (rule ret_sat, simp add: clean_def)
  apply simp
  done

lemma helm_run_sat: "run_sat (helm_run exec vals cmd msg failed) (post True enveloped (Suc 0))"
  unfolding helm_run_def
  apply (rule post_le)
   apply (rule try_else_sat)
     apply (rule write_values_sat)
    apply (auto simp: enveloped_failure ret_inject)[1]
   apply (rule try_finally_sat)
    apply (rule try_reraise)
     apply (rule bnd_clean, rule perform_request, simp)
     apply (rule ret_sat, rule enveloped_success)
    apply (auto simp: enveloped_failure ret_inject)[1]
   apply (rule remove_values_sat)
  apply simp
  done

lemma returned_or_failure: "returned_or (Inl (failure m)) d"
  by (simp add: returned_or_def enveloped_failure)

lemma returned_or_value: "returned_or (Inr v) False"
  by (simp add: returned_or_def)

lemma add_repo_body_sat:
  "run_sat (case split_on CHR ''='' r of
       [repo_name, repo_url] \<Rightarrow>
         bnd (perform exec (CheckOutput [''helm'', ''repo'', ''add'', repo_name, repo_url]))
           (\<lambda>_.
         bnd (perform exec (CheckOutput [''helm'', ''repo'', ''update''])) (\<lambda>_.
         ret (Inr (if CHR ''/'' \<notin> set chart then repo_name @ ''/'' @ chart
                   else chart))))
     | _ \<Rightarrow> ret (Inl (failure (''Repository format should be '' @ quoted ''repo_name=repo_url''))))
     (post True returned_or 2)"
proof (cases "\<exists>a b. split_on CHR ''='' r = [a, b]")
  case True
  then obtain a b where "split_on CHR ''='' r = [a, b]" by blast
  then show ?thesis
    apply (simp split del: if_split)
    apply (rule post_le)
     apply (rule bnd_clean, rule perform_request, simp)
     apply (rule bnd_clean, rule perform_request, simp)
     apply (rule ret_sat, rule returned_or_value)
    apply simp
    done
next
  case False
  then show ?thesis
    by (auto split: list.splits intro!: post_le[OF ret_sat] returned_or_failure)
qed

lemma add_repo_sat: "run_sat (add_repo exec repo chart) (post True returned_or 2)"
proof (cases "given repo")
  case False
  then show ?thesis
    by (auto simp: add_repo_def given_def split: option.splits
        intro!: post_le[OF ret_sat] returned_or_value)
next
  case True
  then obtain r where r: "repo = Some r" "r \<noteq> []"
    by (auto simp: given_def split: option.splits)
  show ?thesis
    unfolding add_repo_def using r
    apply (simp split del: if_split)
    apply (rule try_reraise)
     apply (rule add_repo_body_sat)
    apply (auto simp: returned_or_failure ret_inject)
    done
qed

lemma selector_of_sat: "run_sat (selector_of exec dn ns sel) (post False returned_or (Suc 0))"
  unfolding selector_of_def
  apply (rule try_total)
   apply (rule post_le)
    apply (rule bnd_clean, rule perform_request, simp)
    apply (rule if_sat)
     apply (rule bnd_clean, rule lift_sat)
     apply (rule if_sat)
      apply (rule run_sat_raise)
     apply (rule ret_sat, rule returned_or_value)
    apply (rule ret_sat, rule returned_or_value)
   apply simp
  subgoal for e
    by (cases e) (auto simp: ret_inject returned_or_failure)
  done

lemmas sat_steps = bnd_clean kube_client_sat list_call_sat lift_sat ret_sat perform_request
  try_failure if_sat

lemma get_pods_sat: "run_sat (get_pods exec ns) (post False enveloped (Suc 0))"
  unfolding get_pods_def
  apply (rule post_le)
   apply (rule sat_steps envelope_failure enveloped_success | simp)+
  done

lemma get_namespaces_sat: "run_sat (get_namespaces exec) (post False enveloped (Suc 0))"
  unfolding get_namespaces_def
  apply (rule post_le)
   apply (rule sat_steps envelope_failure enveloped_success | simp)+
  done

lemma get_services_sat: "run_sat (get_services exec ns) (post False enveloped (Suc 0))"
  unfolding get_services_def
  apply (rule post_le)
   apply (rule sat_steps envelope_failure enveloped_success | simp)+
  done

lemma get_nodes_sat: "run_sat (get_nodes exec) (post False enveloped (Suc 0))"
  unfolding get_nodes_def
  apply (rule post_le)
   apply (rule sat_steps envelope_failure enveloped_success | simp)+
  done

lemma get_configmaps_sat: "run_sat (get_configmaps exec ns) (post False enveloped (Suc 0))"
  unfolding get_configmaps_def
  apply (rule post_le)
   apply (rule sat_steps envelope_failure enveloped_success | simp)+
  done

lemma get_secrets_sat: "run_sat (get_secrets exec ns) (post False enveloped (Suc 0))"
  unfolding get_secrets_def
  apply (rule post_le)
   apply (rule sat_steps envelope_failure enveloped_success | simp)+
  done

lemma get_rbac_roles_sat: "run_sat (get_rbac_roles exec ns) (post False enveloped (Suc 0))"
  unfolding get_rbac_roles_def
  apply (rule post_le)
   apply (rule sat_steps envelope_failure enveloped_success | simp)+
  done

lemma get_cluster_roles_sat: "run_sat (get_cluster_roles exec) (post False enveloped (Suc 0))"
  unfolding get_cluster_roles_def
  apply (rule post_le)
   apply (rule sat_steps envelope_failure enveloped_success | simp)+
  done

lemma get_events_sat: "run_sat (get_events exec ns) (post False enveloped (Suc 0))"
  unfolding get_events_def
  apply (rule post_le)
   apply (rule sat_steps envelope_failure enveloped_success | simp)+
  done

lemma get_deployments_sat: "run_sat (get_deployments exec ns) (post False enveloped (Suc 0))"
  unfolding get_deployments_def
  apply (rule post_le)
   apply (rule sat_steps envelope_failure enveloped_success | simp)+
  done

lemma health_check_sat: "run_sat (health_check exec) (post False enveloped (Suc 0))"
  unfolding health_check_def
  apply (rule post_le)
   apply (rule sat_steps envelope_failure enveloped_success | simp)+
  done

lemma get_pod_events_sat: "run_sat (get_pod_events exec p ns) (post False enveloped (Suc 0))"
  unfolding get_pod_events_def
  apply (rule post_le)
   apply (rule sat_steps envelope_failure enveloped_success | simp)+
  done

lemma check_pod_health_sat: "run_sat (check_pod_health exec p ns) (post False enveloped (Suc 0))"
  unfolding check_pod_health_def
  apply (rule post_le)
   apply (rule sat_steps envelope_failure enveloped_success | simp)+
  done

lemma create_deployment_sat: "run_sat (create_deployment exec n i r ns) (post False enveloped (Suc 0))"
  unfolding create_deployment_def
  apply (rule post_le)
   apply (rule sat_steps envelope_failure enveloped_success | simp)+
  done

lemma get_logs_sat: "run_sat (get_logs exec p ns c t) (post False enveloped (Suc 0))"
  unfolding get_logs_def
  apply (rule post_le)
   apply (rule sat_steps envelope_failure enveloped_success | simp)+
  done

lemma scale_deployment_sat: "run_sat (scale_deployment exec n r ns) (post False enveloped 2)"
  unfolding scale_deployment_def
  apply (rule post_le)
   apply (rule sat_steps envelope_failure enveloped_success | simp)+
  done

lemma switch_context_sat: "run_sat (switch_context exec c) (post False enveloped (Suc 0))"
  unfolding switch_context_def
  apply (rule post_le)
   apply (rule sat_steps envelope_failure enveloped_success | simp)+
  done

lemma get_current_context_sat: "run_sat (get_current_context exec) (post False enveloped (Suc 0))"
  unfolding get_current_context_def
  apply (rule post_le)
   apply (rule sat_steps envelope_failure enveloped_success | simp)+
  done

lemma kubectl_explain_sat: "run_sat (kubectl_explain exec r) (post False enveloped (Suc 0))"
  unfolding kubectl_explain_def
  apply (rule post_le)
   apply (rule sat_steps envelope_failure enveloped_success | simp)+
  done

lemma get_api_resources_sat: "run_sat (get_api_resources exec) (post False enveloped (Suc 0))"
  unfolding get_api_resources_def
  apply (rule post_le)
   apply (rule sat_steps envelope_failure enveloped_success | simp)+
  done

lemma delete_resource_sat: "run_sat (delete_resource exec t n ns) (post False enveloped (Suc 0))"
  unfolding delete_resource_def Let_def
  apply (rule post_le)
   apply (rule sat_steps envelope_failure enveloped_success enveloped_failure | simp)+
  done

lemma uninstall_helm_chart_sat:
  "run_sat (uninstall_helm_chart exec n ns) (post True enveloped 2)"
  unfolding uninstall_helm_chart_def check_helm_availability_def
  apply (rule post_le)
   apply (rule bnd_check, rule check_tool_availability_sat)
   apply (rule try_failure)
    apply (rule try_reraise)
     apply (rule bnd_clean, rule perform_request, simp)
     apply (rule ret_sat, rule enveloped_success)
    apply (auto simp: enveloped_failure ret_inject)[1]
   apply (rule envelope_failure)
  apply simp
  done

lemma install_body_sat:
  "run_sat (bnd (add_repo exec repo chart) (\<lambda>r.
              case r of
                Inl returned \<Rightarrow> ret returned
              | Inr chart' \<Rightarrow>
                  let cmd = [''helm'', ''install'', name, chart', ''-n'', namespace] in
                  bnd (ensure_namespace exec namespace) (\<lambda>r'.
                    case r' of
                      Inl returned \<Rightarrow> ret returned
                    | Inr u \<Rightarrow>
                        helm_run exec vals cmd
                          (''Helm chart '' @ chart' @ '' installed as '' @ name @ '' in ''
                             @ namespace)
                          ''Failed to install Helm chart: '')))
     (post True enveloped 5)"
  unfolding Let_def
  apply (rule post_le)
   apply (rule bnd_returned, rule add_repo_sat)
   apply (rule bnd_returned, rule ensure_namespace_sat)
   apply (rule helm_run_sat)
  apply simp
  done

lemma install_helm_chart_sat:
  "run_sat (install_helm_chart exec n c ns repo vals) (post True enveloped 6)"
  unfolding install_helm_chart_def check_helm_availability_def
  apply (rule post_le)
   apply (rule bnd_check, rule check_tool_availability_sat)
   apply (rule try_failure)
    apply (rule install_body_sat)
   apply (rule envelope_failure)
  apply simp
  done

lemma upgrade_helm_chart_sat:
  "run_sat (upgrade_helm_chart exec n c ns repo vals) (post True enveloped 4)"
  unfolding upgrade_helm_chart_def check_helm_availability_def Let_def
  apply (rule post_le)
   apply (rule bnd_check, rule check_tool_availability_sat)
   apply (rule try_failure)
    apply (rule bnd_returned, rule add_repo_sat)
    apply (rule helm_run_sat)
   apply (rule envelope_failure)
  apply simp
  done

lemma if_ret: "(if c then ret a else ret b) = ret (if c then a else b)"
  by simp

lemma top_pods_json:
  "take 2 ([''kubectl'', ''top'', ''pods'', ''--no-headers''] @ top_pods_args ns @ [''-o'', ''json''])
     = [''kubectl'', ''top'']"
  "drop (length ([''kubectl'', ''top'', ''pods'', ''--no-headers''] @ top_pods_args ns @ [''-o'', ''json'']) - 2)
     ([''kubectl'', ''top'', ''pods'', ''--no-headers''] @ top_pods_args ns @ [''-o'', ''json''])
     = [''-o'', ''json'']"
  by (simp_all add: top_pods_args_def split: option.splits)

lemma get_resource_usage_sat:
  "run_sat (get_resource_usage exec ns) (post True enveloped 5)"
  unfolding get_resource_usage_def check_kubectl_availability_def if_ret
  apply (rule post_le)
   apply (rule bnd_check, rule check_tool_availability_sat)
   apply (rule try_failure)
    apply (rule bnd_clean, rule json_or_text_sat, rule top_pods_json, rule top_pods_json)
    apply (rule bnd_clean, rule json_or_text_sat, simp, simp)
    apply (rule ret_sat, rule enveloped_success)
   apply (simp add: envelope_failure)
  apply simp
  done

lemma connect_to_gke_sat:
  "run_sat (connect_to_gke exec home p z c) (post False enveloped (Suc 0))"
  unfolding connect_to_gke_def Let_def if_ret
  apply (rule post_le)
   apply (rule try_failure)
    apply (rule bnd_clean, rule perform_other, simp add: is_request_def)
    apply (rule if_sat)
     apply (rule bnd_clean, rule perform_other, simp add: is_request_def)
     apply (rule bnd_clean, rule perform_other, simp add: is_request_def)
     apply (rule bnd_clean, rule lift_sat)
     apply (rule if_sat)
      apply (rule ret_sat, rule enveloped_success)
     apply (rule bnd_clean, rule perform_request, simp)
     apply (rule bnd_clean, rule lift_sat)
     apply (rule ret_sat, rule enveloped_success)
    apply (rule bnd_clean, rule perform_request, simp)
    apply (rule bnd_clean, rule lift_sat)
    apply (rule ret_sat, rule enveloped_success)
   apply (simp add: envelope_def succeeded_def failure_def)
  apply simp
  done

lemma expose_deployment_with_service_sat:
  "run_sat (expose_deployment_with_service exec d sv tp pr ty ns po sel) (post False enveloped 3)"
  unfolding expose_deployment_with_service_def Let_def if_ret
  apply (rule post_le)
   apply (rule try_failure)
    apply (rule bnd_clean, rule kube_client_sat)
    apply (rule bnd_returned, rule post_may_raise, rule selector_of_sat)
    apply (rule bnd_clean, rule lift_sat)
    apply (rule post_may_raise, rule try_total)
     apply (rule bnd_clean, rule create_or_patch_sat)
     apply (rule bnd_clean, rule lift_sat)
     apply (rule ret_sat, rule enveloped_success)
  subgoal for v va vb e
    by (cases e) (auto simp: ret_inject enveloped_failure)
   apply (simp add: envelope_failure)
  apply simp
  done

subsection \<open>Every registered tool\<close>

lemma port_forward_run:
  "port_forward exec p l q ns (w, tr) =
     (let c = Popen [''kubectl'', ''port-forward'', ''pod/'' @ p,
                     str_int l @ '':'' @ str_int q, ''-n'', ns];
          r = fst (exec c w)
      in (Inr (case sbind r (\<lambda>process. getattr process ''pid'') of
                 Inl e \<Rightarrow> failure (str_exn e)
               | Inr pid \<Rightarrow>
                   [(''success'', PBool True),
                    (''message'', PStr (''Port forwarding started: localhost:'' @ str_int l
                       @ '' -> '' @ p @ '':'' @ str_int q)),
                    (''process_pid'', pid)]),
          (snd (exec c w), tr @ [(c, r)])))"
  by (simp add: port_forward_def try_except_def bnd_def perform_def ret_def lift_def Let_def
        sbind_def split: prod.splits sum.splits)

lemma call_tool_sat:
  "background_command req = None \<Longrightarrow>
     run_sat (call_tool exec home req) (post (prechecked req) enveloped (max_requests req))"
  by (cases req) (simp_all add: get_pods_sat get_namespaces_sat get_services_sat get_nodes_sat get_configmaps_sat get_secrets_sat get_rbac_roles_sat get_cluster_roles_sat get_events_sat get_deployments_sat health_check_sat get_pod_events_sat check_pod_health_sat create_deployment_sat get_logs_sat scale_deployment_sat switch_context_sat get_current_context_sat kubectl_explain_sat get_api_resources_sat delete_resource_sat uninstall_helm_chart_sat install_helm_chart_sat upgrade_helm_chart_sat get_resource_usage_sat connect_to_gke_sat expose_deployment_with_service_sat)

lemma guarded_try_raises:
  "fst (bnd m (\<lambda>a. if \<not> a then ret x else try_except b (\<lambda>e. ret (g e))) s) = Inl e
     \<Longrightarrow> fst (m s) = Inl e"
  by (auto simp: bnd_def try_except_def ret_def split: prod.splits sum.splits if_splits)

lemma guarded_try_raises2:
  "fst (bnd m (\<lambda>a. if \<not> a then ret x
          else try_except b (\<lambda>e. if c e then ret (g e) else ret (g' e))) s) = Inl e
     \<Longrightarrow> fst (m s) = Inl e"
  by (auto simp: bnd_def try_except_def ret_def split: prod.splits sum.splits if_splits)

lemma prechecked_raises:
  assumes "prechecked req" and "fst (call_tool exec home req s) = Inl e"
  shows "fst (check_helm_availability exec s) = Inl e \<or>
         fst (check_kubectl_availability exec s) = Inl e"
  using assms
  by (cases req)
     (auto simp: install_helm_chart_def upgrade_helm_chart_def uninstall_helm_chart_def
        get_resource_usage_def dest!: guarded_try_raises guarded_try_raises2)

lemma run_sat_result:
  assumes "run_sat m (post mr enveloped k)" and "\<forall>e. fst (m (w, tr)) \<noteq> Inl e"
  shows "\<exists>d w' add. m (w, tr) = (Inr d, (w', tr @ add)) \<and> envelope d \<and>
           (dirty add \<longrightarrow> \<not> succeeded d)"
proof -
  from assms(1) obtain r w' add where run: "m (w, tr) = (r, (w', tr @ add))"
    and p: "post mr enveloped k r add"
    unfolding run_sat_def by blast
  from run assms(2) obtain d where "r = Inr d" by (cases r) auto
  with run p show ?thesis by (auto simp: post_def enveloped_def)
qed

lemmas run_unfold = try_else_def try_finally_def try_except_def bnd_def perform_def ret_def
  raise_exn_def lift_def Let_def case_prod_unfold

lemma run_steps_append:
  "run_steps st q (a @ b) =
     (case run_steps st q a of None \<Rightarrow> None | Some q' \<Rightarrow> run_steps st q' b)"
  by (induction a arbitrary: q) (auto split: option.splits)

lemma scan_ret: "I q \<Longrightarrow> G v q \<Longrightarrow> run_sat (ret v) (scan st I q G)"
  by (simp add: run_sat_def ret_def scan_def)

lemma scan_raise: "I q \<Longrightarrow> run_sat (raise_exn e) (scan st I q G)"
  by (simp add: run_sat_def raise_exn_def scan_def)

lemma scan_lift: "I q \<Longrightarrow> (\<And>v. x = Inr v \<Longrightarrow> G v q) \<Longrightarrow> run_sat (lift x) (scan st I q G)"
  by (simp add: run_sat_def lift_def scan_def)

lemma scan_perform:
  assumes "\<And>r. \<exists>q'. st q (c, r) = Some q' \<and> I q' \<and> (\<forall>v. r = Inr v \<longrightarrow> G v q')"
  shows "run_sat (perform exec c) (scan st I q G)"
  unfolding run_sat_def
proof (intro allI)
  fix w tr
  obtain r w' where e: "exec c w = (r, w')" by (cases "exec c w")
  from assms[of r] obtain q' where "st q (c, r) = Some q'" and "I q'"
    and "\<forall>v. r = Inr v \<longrightarrow> G v q'"
    by blast
  then have "scan st I q G r [(c, r)]" by (simp add: scan_def)
  moreover have "perform exec c (w, tr) = (r, (w', tr @ [(c, r)]))"
    using e by (simp add: perform_def)
  ultimately show "\<exists>r w' add. perform exec c (w, tr) = (r, w', tr @ add) \<and> scan st I q G r add"
    by blast
qed

lemma scan_weaken:
  assumes "run_sat m (scan st I q G)" and "\<And>v q'. I q' \<Longrightarrow> G v q' \<Longrightarrow> G' v q'"
  shows "run_sat m (scan st I q G')"
  unfolding run_sat_def
proof (intro allI)
  fix w tr
  from assms(1) obtain r w' add q' where "m (w, tr) = (r, (w', tr @ add))"
    and "run_steps st q add = Some q'" and "I q'" and "\<forall>v. r = Inr v \<longrightarrow> G v q'"
    unfolding run_sat_def scan_def by blast
  with assms(2) show "\<exists>r w' add. m (w, tr) = (r, w', tr @ add) \<and> scan st I q G' r add"
    unfolding scan_def by blast
qed

lemma scan_try_else:
  assumes m: "run_sat m (scan st I1 q G1)"
    and h: "\<And>e q1. I1 q1 \<Longrightarrow> run_sat (h e) (scan st I q1 G)"
    and k: "\<And>v q1. I1 q1 \<Longrightarrow> G1 v q1 \<Longrightarrow> run_sat (f v) (scan st I q1 G)"
  shows "run_sat (try_else m h f) (scan st I q G)"
  unfolding run_sat_def
proof (intro allI)
  fix w tr
  from m obtain r w1 a1 q1 where 1: "m (w, tr) = (r, (w1, tr @ a1))"
    and s1: "run_steps st q a1 = Some q1" and i1: "I1 q1" and g1: "\<forall>v. r = Inr v \<longrightarrow> G1 v q1"
    unfolding run_sat_def scan_def by blast
  have "\<exists>r2 w2 a2. try_else m h f (w, tr) = (r2, (w2, (tr @ a1) @ a2)) \<and> scan st I q1 G r2 a2"
  proof (cases r)
    case (Inl e)
    from h[OF i1, of e] obtain r2 w2 a2 where "h e (w1, tr @ a1) = (r2, (w2, (tr @ a1) @ a2))"
      and "scan st I q1 G r2 a2"
      unfolding run_sat_def by blast
    with 1 Inl show ?thesis by (auto simp: try_else_def)
  next
    case (Inr v)
    with g1 have "G1 v q1" by simp
    from k[OF i1 this] obtain r2 w2 a2 where "f v (w1, tr @ a1) = (r2, (w2, (tr @ a1) @ a2))"
      and "scan st I q1 G r2 a2"
      unfolding run_sat_def by blast
    with 1 Inr show ?thesis by (auto simp: try_else_def)
  qed
  then obtain r2 w2 a2 where "try_else m h f (w, tr) = (r2, (w2, tr @ (a1 @ a2)))"
    and "scan st I q1 G r2 a2" by auto
  moreover from this s1 have "scan st I q G r2 (a1 @ a2)"
    by (auto simp: scan_def run_steps_append)
  ultimately show "\<exists>r w' add. try_else m h f (w, tr) = (r, w', tr @ add) \<and> scan st I q G r add"
    by blast
qed

lemma scan_bnd:
  assumes m: "run_sat m (scan st I1 q G1)"
    and f: "\<And>v q1. I1 q1 \<Longrightarrow> G1 v q1 \<Longrightarrow> run_sat (f v) (scan st I q1 G)"
    and i: "\<And>q1. I1 q1 \<Longrightarrow> I q1"
  shows "run_sat (bnd m f) (scan st I q G)"
proof -
  have eq: "bnd m f = try_else m raise_exn f"
    by (auto simp: bnd_def try_else_def raise_exn_def fun_eq_iff split: prod.splits sum.splits)
  show ?thesis
    unfolding eq by (rule scan_try_else[OF m _ f]) (simp_all add: scan_raise i)
qed

lemma scan_try:
  assumes m: "run_sat m (scan st I1 q G)"
    and h: "\<And>e q1. I1 q1 \<Longrightarrow> run_sat (h e) (scan st I q1 G)"
    and i: "\<And>q1. I1 q1 \<Longrightarrow> I q1"
  shows "run_sat (try_except m h) (scan st I q G)"
proof -
  have eq: "try_except m h = try_else m h ret"
    by (auto simp: try_except_def try_else_def ret_def fun_eq_iff split: prod.splits sum.splits)
  show ?thesis
    unfolding eq by (rule scan_try_else[OF m h]) (simp_all add: scan_ret i)
qed

lemma scan_finally:
  assumes m: "run_sat m (scan st I q G1)"
    and c: "\<And>q1. I q1 \<Longrightarrow> run_sat c (scan st I q1 G2)"
  shows "run_sat (try_finally m c) (scan st I q anything)"
  unfolding run_sat_def
proof (intro allI)
  fix w tr
  from m obtain r w1 a1 q1 where 1: "m (w, tr) = (r, (w1, tr @ a1))"
    and s1: "run_steps st q a1 = Some q1" and i1: "I q1"
    unfolding run_sat_def scan_def by blast
  from c[OF i1] obtain r2 w2 a2 q2 where 2: "c (w1, tr @ a1) = (r2, (w2, (tr @ a1) @ a2))"
    and s2: "run_steps st q1 a2 = Some q2" and i2: "I q2"
    unfolding run_sat_def scan_def by blast
  have "snd (try_finally m c (w, tr)) = (w2, tr @ (a1 @ a2))"
    using 1 2 by (cases r2) (simp_all add: try_finally_def)
  then have "try_finally m c (w, tr) = (fst (try_finally m c (w, tr)), (w2, tr @ (a1 @ a2)))"
    by (metis prod.collapse)
  moreover have "scan st I q anything (fst (try_finally m c (w, tr))) (a1 @ a2)"
    using s1 s2 i2 by (simp add: scan_def run_steps_append anything_def)
  ultimately show
    "\<exists>r w' add. try_finally m c (w, tr) = (r, w', tr @ add) \<and> scan st I q anything r add"
    by blast
qed

lemma run_steps_only_if:
  "(run_steps (only_if P) q add = Some q') = (q' = q \<and> list_all P add)"
  by (induction add) (auto simp: only_if_def)

lemma perform_ignored:
  "ignores st q c \<Longrightarrow> run_sat (perform exec c) (scan st (stays q) q anything)"
  by (rule scan_perform) (simp add: ignores_def stays_def anything_def)

lemma stays_refl: "stays q q"
  by (simp add: stays_def)

lemma check_helm_scan:
  assumes "\<And>f args. ignores st q (Lib f args)"
    and "ignores st q (CheckOutput [''helm'', ''version''])"
  shows "run_sat (check_helm_availability exec) (scan st (stays q) q anything)"
  unfolding check_helm_availability_def check_tool_availability_def
  apply (rule scan_try[where ?I1.0 = "stays q"])
    apply (rule scan_bnd[where ?I1.0 = "stays q"], rule perform_ignored, rule assms)
     apply (simp add: stays_def scan_ret anything_def)
     apply (intro impI scan_bnd[where ?I1.0 = "stays q"], rule perform_ignored, rule assms)
      apply (simp_all add: stays_def scan_ret scan_raise anything_def)
  done

lemma check_kubectl_scan:
  assumes "\<And>f args. ignores st q (Lib f args)"
    and "ignores st q (CheckOutput [''kubectl'', ''version'', ''--client''])"
  shows "run_sat (check_kubectl_availability exec) (scan st (stays q) q anything)"
  unfolding check_kubectl_availability_def check_tool_availability_def
  apply (rule scan_try[where ?I1.0 = "stays q"])
    apply (rule scan_bnd[where ?I1.0 = "stays q"], rule perform_ignored, rule assms)
     apply (simp add: stays_def scan_ret anything_def)
     apply (intro impI scan_bnd[where ?I1.0 = "stays q"], rule perform_ignored, rule assms)
      apply (simp_all add: stays_def scan_ret scan_raise anything_def)
  done

lemma scan_inv:
  assumes "run_sat m (scan st I1 q G)" and "\<And>q'. I1 q' \<Longrightarrow> I q'"
  shows "run_sat m (scan st I q G)"
  unfolding run_sat_def
proof (intro allI)
  fix w tr
  from assms(1) obtain r w' add q' where "m (w, tr) = (r, (w', tr @ add))"
    and "run_steps st q add = Some q'" and "I1 q'" and "\<forall>v. r = Inr v \<longrightarrow> G v q'"
    unfolding run_sat_def scan_def by blast
  with assms(2) show "\<exists>r w' add. m (w, tr) = (r, w', tr @ add) \<and> scan st I q G r add"
    unfolding scan_def by blast
qed

lemma stays_ret: "G v q \<Longrightarrow> stays q q1 \<Longrightarrow> run_sat (ret v) (scan st (stays q) q1 G)"
  by (simp add: stays_def scan_ret)

lemma stays_bnd:
  assumes "run_sat m (scan st (stays q) q anything)"
    and "\<And>v. run_sat (f v) (scan st (stays q) q G)"
  shows "run_sat (bnd m f) (scan st (stays q) q G)"
  by (rule scan_bnd[OF assms(1)]) (simp_all add: stays_def assms(2))

lemma stays_lift_bnd:
  assumes "\<And>v. run_sat (f v) (scan st (stays q) q G)"
  shows "run_sat (bnd (lift x) f) (scan st (stays q) q G)"
  by (rule stays_bnd[OF _ assms]) (simp add: scan_lift stays_def anything_def)

lemma stays_handler:
  "stays q q1 \<Longrightarrow> (\<And>x. G (Inl x) q)
     \<Longrightarrow> run_sat (if c then ret (Inl d) else raise_exn e) (scan st (stays q) q1 G)"
  by (simp add: stays_def scan_ret scan_raise)

lemma add_repo_scan:
  assumes "\<And>rest. ignores st q (CheckOutput (''helm'' # ''repo'' # rest))"
  shows "run_sat (add_repo exec repo chart)
           (scan st (stays q) q (\<lambda>v q'. \<forall>c. v = Inr c \<longrightarrow> c = prefixed repo chart))"
proof (cases "given repo")
  case False
  then show ?thesis
    by (auto simp: add_repo_def given_def prefixed_def stays_def split: option.splits
        intro!: scan_ret)
next
  case True
  then obtain r where r: "repo = Some r" "r \<noteq> []"
    by (auto simp: given_def split: option.splits)
  show ?thesis
  proof (cases "\<exists>a b. split_on CHR ''='' r = [a, b]")
    case True
    then obtain a b where ab: "split_on CHR ''='' r = [a, b]" by blast
    show ?thesis
      unfolding add_repo_def using r ab
      apply (simp split del: if_split)
      apply (rule scan_try[where ?I1.0 = "stays q"])
        apply (rule stays_bnd, rule perform_ignored, rule assms)
        apply (rule stays_bnd, rule perform_ignored, rule assms)
        apply (rule scan_ret, rule stays_refl)
        apply (simp add: prefixed_def)
       apply (rule stays_handler, assumption, simp)
      apply assumption
      done
  next
    case False
    show ?thesis
      unfolding add_repo_def using r False
      apply (simp split del: if_split)
      apply (rule scan_try[where ?I1.0 = "stays q"])
        apply (auto split: list.splits intro!: scan_ret stays_refl)[1]
       apply (rule stays_handler, assumption, simp)
      apply assumption
      done
  qed
qed

lemma ensure_namespace_ignored:
  assumes "\<And>rest. ignores st q (CheckOutput (''kubectl'' # rest))"
  shows "run_sat (ensure_namespace exec ns) (scan st (stays q) q anything)"
  unfolding ensure_namespace_def
  apply (rule scan_try[where ?I1.0 = "stays q"])
    apply (rule stays_bnd, rule perform_ignored, rule assms)
    apply (rule scan_ret, rule stays_refl, simp add: anything_def)
   apply (simp add: scan_raise)
   apply (intro impI)
   apply (rule scan_try[where ?I1.0 = "stays q"])
     apply (simp add: stays_def)
     apply (rule stays_bnd, rule perform_ignored, rule assms)
     apply (rule scan_ret, rule stays_refl, simp add: anything_def)
    apply (simp add: scan_raise scan_ret anything_def)
   apply assumption
  apply assumption
  done

lemma write_values_scan:
  assumes "\<And>f args. ignores st q (Lib f args)"
  shows "run_sat (write_values exec vals cmd)
           (scan st (stays q) q (\<lambda>v q'. \<exists>rest. snd v = cmd @ rest))"
  unfolding write_values_def
  apply (simp add: scan_ret stays_refl)
  apply (intro impI)
  apply (rule stays_bnd, rule perform_ignored, rule assms)
  apply (rule stays_bnd, rule perform_ignored, rule assms)
  apply (rule stays_lift_bnd)
  apply (rule stays_lift_bnd)
  apply (rule scan_ret, rule stays_refl)
  apply simp
  done

lemma remove_values_scan:
  assumes "\<And>f args. ignores st q (Lib f args)"
  shows "run_sat (remove_values exec vf) (scan st (stays q) q anything)"
  unfolding remove_values_def
  apply (simp add: scan_ret stays_refl anything_def)
  apply (intro impI)
  apply (rule stays_bnd, rule perform_ignored, rule assms)
  apply (simp add: scan_ret stays_refl anything_def)
  apply (intro impI)
  apply (rule stays_bnd, rule perform_ignored, rule assms)
  apply (simp add: scan_ret stays_refl anything_def)
  done

lemma helm_run_scan:
  assumes libs: "\<And>f args. ignores st q (Lib f args)"
    and helm: "\<And>rest. ignores st q (CheckOutput (cmd @ rest))"
  shows "run_sat (helm_run exec vals cmd msg failed) (scan st (stays q) q anything)"
  unfolding helm_run_def
  apply (rule scan_try_else[where ?I1.0 = "stays q"])
    apply (rule write_values_scan, rule libs)
   apply (simp add: scan_ret scan_raise anything_def)
  apply (simp add: stays_def)
  apply (erule exE)
  apply (rule scan_finally)
   apply (rule scan_try[where ?I1.0 = "stays q"])
     apply (rule stays_bnd)
      apply (simp, rule perform_ignored, rule helm)
     apply (rule scan_ret, rule stays_refl, simp add: anything_def)
    apply (simp add: scan_ret scan_raise anything_def)
   apply assumption
  apply (simp add: stays_def)
  apply (rule remove_values_scan, rule libs)
  done


lemma scan_bnd_returned:
  assumes m: "run_sat m (scan st I1 q G1)"
    and g: "\<And>v q1. I1 q1 \<Longrightarrow> G1 (Inr v) q1 \<Longrightarrow> run_sat (g v) (scan st I q1 anything)"
    and i: "\<And>q1. I1 q1 \<Longrightarrow> I q1"
  shows "run_sat (bnd m (\<lambda>r. case r of Inl x \<Rightarrow> ret x | Inr v \<Rightarrow> g v)) (scan st I q anything)"
proof (rule scan_bnd[OF m _ i])
  fix v q1
  assume "I1 q1" and "G1 v q1"
  then show "run_sat (case v of Inl x \<Rightarrow> ret x | Inr v \<Rightarrow> g v) (scan st I q1 anything)"
    by (cases v) (simp_all add: scan_ret anything_def i g)
qed

lemma scan_guarded:
  assumes c: "run_sat m (scan st (stays q) q anything)"
    and b: "run_sat body (scan st I q anything)"
    and i: "I q"
  shows "run_sat (bnd m (\<lambda>a. if \<not> a then ret x else body)) (scan st I q anything)"
proof (rule scan_bnd[OF c])
  fix v q1
  assume "stays q q1"
  then show "run_sat (if \<not> v then ret x else body) (scan st I q1 anything)"
    using b i by (simp add: stays_def scan_ret anything_def)
next
  fix q1 assume "stays q q1" then show "I q1" using i by (simp add: stays_def)
qed

lemma scan_try_ret:
  assumes "run_sat m (scan st I q anything)"
  shows "run_sat (try_except m (\<lambda>e. ret (g e))) (scan st I q anything)"
  by (rule scan_try[OF assms]) (simp_all add: scan_ret anything_def)

lemma install_scan:
  assumes libs0: "\<And>f args. ignores st q0 (Lib f args)"
    and libs1: "\<And>f args. ignores st q1 (Lib f args)"
    and ver: "ignores st q0 (CheckOutput [''helm'', ''version''])"
    and repo: "\<And>rest. ignores st q0 (CheckOutput (''helm'' # ''repo'' # rest))"
    and ens: "run_sat (ensure_namespace exec ns)
                (scan st I q0 (\<lambda>v q'. case v of Inr u \<Rightarrow> q' = q1 | Inl d \<Rightarrow> True))"
    and helm: "\<And>rest. ignores st q1
                 (CheckOutput ([''helm'', ''install'', name, prefixed repo chart, ''-n'', ns] @ rest))"
    and i0: "I q0" and i1: "I q1"
  shows "run_sat (install_helm_chart exec name chart ns repo vals) (scan st I q0 anything)"
  unfolding install_helm_chart_def Let_def
proof (rule scan_guarded[where I = I and q = q0, OF check_helm_scan[OF libs0 ver] _ i0],
    rule scan_try_ret,
    rule scan_bnd_returned[OF add_repo_scan[OF repo]])
  fix c q'
  assume "stays q0 q'" and "\<forall>c'. Inr c = Inr c' \<longrightarrow> c' = prefixed repo chart"
  then have q': "q' = q0" and c: "c = prefixed repo chart" by (simp_all add: stays_def)
  show "run_sat
          (bnd (ensure_namespace exec ns)
             (\<lambda>r'. case r' of
                Inl returned \<Rightarrow> ret returned
              | Inr u \<Rightarrow>
                  helm_run exec vals [''helm'', ''install'', name, c, ''-n'', ns]
                    (''Helm chart '' @ c @ '' installed as '' @ name @ '' in '' @ ns)
                    ''Failed to install Helm chart: ''))
          (scan st I q' anything)"
    unfolding q' c
  proof (rule scan_bnd_returned[OF ens])
    fix u :: unit and q''
    assume "case (Inr u :: result + unit) of Inr u \<Rightarrow> q'' = q1 | Inl d \<Rightarrow> True"
    then have "q'' = q1" by simp
    then show "run_sat
          (helm_run exec vals [''helm'', ''install'', name, prefixed repo chart, ''-n'', ns]
             (''Helm chart '' @ prefixed repo chart @ '' installed as '' @ name @ '' in '' @ ns)
             ''Failed to install Helm chart: '')
          (scan st I q'' anything)"
      using scan_inv[OF helm_run_scan[OF libs1 helm], of I] i1 by (simp add: stays_def)
  qed
next
  fix q' assume "stays q0 q'" then show "I q'" using i0 by (simp add: stays_def)
qed

lemma upgrade_scan:
  assumes libs: "\<And>f args. ignores st q (Lib f args)"
    and ver: "ignores st q (CheckOutput [''helm'', ''version''])"
    and repo: "\<And>rest. ignores st q (CheckOutput (''helm'' # ''repo'' # rest))"
    and helm: "\<And>rest. ignores st q
                 (CheckOutput ([''helm'', ''upgrade'', name, prefixed repo chart, ''-n'', ns] @ rest))"
  shows "run_sat (upgrade_helm_chart exec name chart ns repo vals) (scan st (stays q) q anything)"
  unfolding upgrade_helm_chart_def Let_def
proof (rule scan_guarded[where I = "stays q" and q = q, OF check_helm_scan[OF libs ver] _ stays_refl],
    rule scan_try_ret,
    rule scan_bnd_returned[OF add_repo_scan[OF repo]])
  fix c q'
  assume "stays q q'" and "\<forall>c'. Inr c = Inr c' \<longrightarrow> c' = prefixed repo chart"
  then have q': "q' = q" and c: "c = prefixed repo chart" by (simp_all add: stays_def)
  show "run_sat
          (helm_run exec vals [''helm'', ''upgrade'', name, c, ''-n'', ns]
             (''Helm release '' @ name @ '' upgraded with chart '' @ c @ '' in '' @ ns)
             ''Failed to upgrade Helm chart: '')
          (scan st (stays q) q' anything)"
    unfolding q' c by (rule helm_run_scan[OF libs helm])
qed

lemmas class_defs = is_CalledProcessError_def is_SubprocessError_def is_FileNotFoundError_def
  is_JSONDecodeError_def is_ApiException_def is_ImportError_def

lemma not_two_parts:
  "length xs \<noteq> 2 \<Longrightarrow> (case xs of [] \<Rightarrow> g | [a] \<Rightarrow> g | [a, b] \<Rightarrow> f a b | a # b # c # ys \<Rightarrow> g) = g"
  by (auto split: list.splits)

lemma add_repo_malformed:
  assumes "r \<noteq> []" and "length (split_on CHR ''='' r) \<noteq> 2"
  shows "add_repo exec (Some r) chart s =
           (Inr (Inl (failure (''Repository format should be '' @ quoted ''repo_name=repo_url''))), s)"
  using assms by (simp add: add_repo_def not_two_parts try_except_def ret_def)

lemma prefixed_valid:
  assumes "split_on CHR ''='' r = [repo_name, repo_url]" and "CHR ''/'' \<notin> set chart"
  shows "prefixed (Some r) chart = repo_name @ ''/'' @ chart"
proof -
  from assms(1) have "r \<noteq> []" by auto
  with assms show ?thesis by (simp add: prefixed_def)
qed

lemma chart_scan:
  fixes st :: "unit \<Rightarrow> call \<times> outcome \<Rightarrow> unit option"
  assumes st: "st = only_if (passes_chart verb name (prefixed repo chart))"
    and verb: "verb = ''install'' \<or> verb = ''upgrade''"
  shows "\<And>f args. ignores st () (Lib f args)"
    and "ignores st () (CheckOutput [''helm'', ''version''])"
    and "\<And>rest. ignores st () (CheckOutput (''helm'' # ''repo'' # rest))"
    and "\<And>rest. ignores st () (CheckOutput (''kubectl'' # rest))"
    and "\<And>rest. ignores st ()
           (CheckOutput ([''helm'', verb, name, prefixed repo chart, ''-n'', ns] @ rest))"
  unfolding st using verb by (auto simp: ignores_def only_if_def passes_chart_def)

lemma split_bitnami: "split_on CHR ''='' ''bitnami=https://charts.example'' = [''bitnami'', ''https://charts.example'']"
  by simp

lemma split_plain: "split_on CHR ''='' ''bitnami'' = [''bitnami'']"
  by simp

lemma install_into_new_namespace:
  "map fst (snd (snd (install_helm_chart fresh ''web'' ''nginx'' ''prod'' None PNone ((), [])))) =
     [Lib ''shutil.which'' [PStr ''helm''],
      CheckOutput [''helm'', ''version''],
      CheckOutput [''kubectl'', ''get'', ''namespace'', ''prod''],
      CheckOutput [''kubectl'', ''create'', ''namespace'', ''prod''],
      CheckOutput [''helm'', ''install'', ''web'', ''nginx'', ''-n'', ''prod'']]"
  by (simp add: install_helm_chart_def check_helm_availability_def check_tool_availability_def
      add_repo_def ensure_namespace_def helm_run_def write_values_def remove_values_def
      run_unfold class_defs fresh_def)

lemma json_or_text_fallback:
  assumes "json_fails exec jc w = Some (w1, es)"
  shows "json_or_text exec jc tc (w, tr) =
           (case exec (CheckOutput tc) w1 of
              (Inl e, w2) \<Rightarrow> (Inl e, (w2, tr @ es @ [(CheckOutput tc, Inl e)]))
            | (Inr text, w2) \<Rightarrow>
                (Inr (PDict [(''text_output'', text)]), (w2, tr @ es @ [(CheckOutput tc, Inr text)])))"
  using assms
  by (auto simp: json_fails_def json_or_text_def try_except_def bnd_def perform_def ret_def
      raise_exn_def split: prod.splits sum.splits if_splits)

lemma precheck_raises:
  assumes "prechecked req" and "fst (call_tool exec home req s) = Inl e"
  shows "\<exists>t. precheck req = Some t \<and> fst (check_tool_availability exec t s) = Inl e"
  using assms
  by (cases req)
     (auto simp: install_helm_chart_def upgrade_helm_chart_def uninstall_helm_chart_def
        get_resource_usage_def check_helm_availability_def check_kubectl_availability_def
        dest!: guarded_try_raises guarded_try_raises2)













section \<open>Properties\<close>

text \<open>
  C7. \<open>switch_context\<close> asks the world for exactly one thing, the command
  \<^verbatim>\<open>kubectl config use-context <context_name>\<close>, whatever the state and the trace so far.
  When the command succeeds the result is \<^verbatim>\<open>"success": True\<close> with the message
  \<^verbatim>\<open>Switched context to <context_name>\<close>; when it raises, the result is the failure
  envelope with the exception's text.
\<close>

theorem switch_context_command:
  "switch_context exec context_name (w, tr) =
     (let c = CheckOutput [''kubectl'', ''config'', ''use-context'', context_name];
          r = fst (exec c w)
      in (Inr (case r of
                 Inr out \<Rightarrow> [(''success'', PBool True),
                             (''message'', PStr (''Switched context to '' @ context_name))]
               | Inl e \<Rightarrow> [(''success'', PBool False), (''error'', PStr (str_exn e))]),
          (snd (exec c w), tr @ [(c, r)])))"
  by (simp add: switch_context_def try_except_def bnd_def perform_def ret_def failure_def Let_def
        split: prod.splits sum.splits)

text \<open>
  C1 as stated fails where the source recovers: with a \<^verbatim>\<open>kubectl top\<close> that rejects
  \<^verbatim>\<open>-o json\<close>, the command raises and \<open>get_resource_usage\<close> still answers
  \<^verbatim>\<open>"success": True\<close>.
\<close>

theorem raised_but_successful:
  "fst (call_tool no_json ''/home/dev/.kube/config'' (GetResourceUsage None) ((), [])) =
     Inr [(''success'', PBool True),
          (''pod_usage'', PDict [(''text_output'', PStr ''NAME CPU MEMORY'')]),
          (''node_usage'', PDict [(''text_output'', PStr ''NAME CPU MEMORY'')])] \<and>
   (CheckOutput [''kubectl'', ''top'', ''pods'', ''--no-headers'', ''--all-namespaces'', ''-o'',
      ''json''],
    Inl (CalledProcessError ''Command returned non-zero exit status 1.''
           ''error: unknown shorthand flag''))
     \<in> set (snd (snd (call_tool no_json ''/home/dev/.kube/config'' (GetResourceUsage None)
            ((), []))))"
  by (simp add: get_resource_usage_def check_kubectl_availability_def
      check_tool_availability_def json_or_text_def top_pods_args_def try_except_def bnd_def
      perform_def ret_def raise_exn_def Let_def case_prod_unfold no_json_def
      is_CalledProcessError_def is_SubprocessError_def is_FileNotFoundError_def
      is_JSONDecodeError_def)

text \<open>
  The availability check catches \<^verbatim>\<open>SubprocessError\<close> and \<^verbatim>\<open>FileNotFoundError\<close> only and
  runs before the \<^verbatim>\<open>try\<close> of the tool: any other exception of the check leaves the tool.
\<close>

lemma availability_check_escapes:
  "fst (call_tool broken_helm ''/home/dev/.kube/config'' (UninstallHelmChart ''web'' ''prod'')
      ((), [])) = Inl (OtherException ''[Errno 8] Exec format error: helm'')"
  by (simp add: uninstall_helm_chart_def check_helm_availability_def
      check_tool_availability_def try_except_def bnd_def perform_def ret_def raise_exn_def
      Let_def case_prod_unfold broken_helm_def is_CalledProcessError_def
      is_SubprocessError_def is_FileNotFoundError_def)

text \<open>
  C2, as amended. One call of a tool makes at most \<open>max_requests\<close> requests (calls of the
  Kubernetes API and started commands together): two for \<open>scale_deployment\<close> and
  \<open>uninstall_helm_chart\<close>, three for \<open>expose_deployment_with_service\<close>, four for
  \<open>upgrade_helm_chart\<close>, five for \<open>get_resource_usage\<close>, six for \<open>install_helm_chart\<close>,
  and one for every other tool.
\<close>

theorem requests_per_call:
  "\<exists>r w' add. call_tool exec home req (w, tr) = (r, (w', tr @ add)) \<and>
     requests add \<le> max_requests req"
proof (cases "background_command req")
  case None
  from call_tool_sat[OF None, of exec home] show ?thesis
    unfolding run_sat_def post_def by blast
next
  case (Some cmd)
  then obtain p l q ns where req: "req = PortForward p l q ns"
    by (cases req) simp_all
  show ?thesis
    unfolding req by (simp add: port_forward_run Let_def requests_def is_request_def)
qed

text \<open>
  C2 as stated fails: installing a chart from a repository into a namespace that does not
  exist yet takes six commands (\<^verbatim>\<open>helm version\<close>, \<^verbatim>\<open>helm repo add\<close>,
  \<^verbatim>\<open>helm repo update\<close>, \<^verbatim>\<open>kubectl get namespace\<close>, \<^verbatim>\<open>kubectl create namespace\<close>,
  \<^verbatim>\<open>helm install\<close>).
\<close>

theorem install_makes_six_requests:
  "requests (snd (snd (call_tool fresh ''/home/dev/.kube/config''
      (InstallHelmChart ''web'' ''nginx'' ''prod'' (Some ''bitnami=https://charts.example'') PNone)
      ((), [])))) = 6"
  by (simp add: install_helm_chart_def check_helm_availability_def check_tool_availability_def
      add_repo_def ensure_namespace_def helm_run_def write_values_def remove_values_def
      try_else_def try_finally_def try_except_def bnd_def perform_def ret_def raise_exn_def
      Let_def case_prod_unfold fresh_def requests_def is_request_def is_CalledProcessError_def
      is_SubprocessError_def is_FileNotFoundError_def)

lemma spawned_single:
  "spawned [(Popen cmd, r)] = (case r of Inl e \<Rightarrow> [] | Inr process \<Rightarrow> [cmd])"
  by (cases r) simp_all

text \<open>
  C6, as amended. When a tool other than \<open>port_forward\<close> returns, no command it started
  is still running: each was started by a call that waits for its exit.
  \<open>port_forward\<close> starts \<^verbatim>\<open>kubectl port-forward\<close> with \<^verbatim>\<open>Popen\<close> and returns without
  waiting, so the command is left running whenever it could be started.
\<close>

theorem only_port_forward_leaves_a_process:
  "\<exists>r w' add. call_tool exec home req (w, tr) = (r, (w', tr @ add)) \<and>
     spawned add =
       (case background_command req of
          None \<Rightarrow> []
        | Some cmd \<Rightarrow> (case fst (exec (Popen cmd) w) of Inl e \<Rightarrow> [] | Inr process \<Rightarrow> [cmd]))"
proof (cases "background_command req")
  case None
  from call_tool_sat[OF None, of exec home]
  obtain r w' add where "call_tool exec home req (w, tr) = (r, (w', tr @ add))"
    and "spawned add = []"
    unfolding run_sat_def post_def by blast
  with None show ?thesis by auto
next
  case (Some cmd)
  then obtain p l q ns where req: "req = PortForward p l q ns"
    by (cases req) simp_all
  with Some have cmd: "cmd = [''kubectl'', ''port-forward'', ''pod/'' @ p,
      str_int l @ '':'' @ str_int q, ''-n'', ns]"
    by simp
  have "snd (call_tool exec home req (w, tr)) =
      (snd (exec (Popen cmd) w), tr @ [(Popen cmd, fst (exec (Popen cmd) w))])"
    unfolding req cmd by (simp add: port_forward_run Let_def)
  then have "call_tool exec home req (w, tr) =
      (fst (call_tool exec home req (w, tr)),
       (snd (exec (Popen cmd) w), tr @ [(Popen cmd, fst (exec (Popen cmd) w))]))"
    by (metis prod.collapse)
  moreover have "spawned [(Popen cmd, fst (exec (Popen cmd) w))] =
      (case background_command req of
          None \<Rightarrow> []
        | Some cmd \<Rightarrow> (case fst (exec (Popen cmd) w) of Inl e \<Rightarrow> [] | Inr process \<Rightarrow> [cmd]))"
    unfolding Some by (simp split: sum.splits)
  ultimately show ?thesis by blast
qed

text \<open>
  C6 as stated fails at \<open>port_forward\<close>: it answers with the process id while the command
  it started is still running.
\<close>

theorem port_forward_returns_early:
  "fst (call_tool healthy ''/home/dev/.kube/config'' (PortForward ''web-0'' 8080 80 ''default'')
      ((), [])) =
     Inr [(''success'', PBool True),
          (''message'', PStr ''Port forwarding started: localhost:8080 -> web-0:80''),
          (''process_pid'', PInt 4242)] \<and>
   spawned (snd (snd (call_tool healthy ''/home/dev/.kube/config''
      (PortForward ''web-0'' 8080 80 ''default'') ((), [])))) =
     [[''kubectl'', ''port-forward'', ''pod/web-0'', ''8080:80'', ''-n'', ''default'']]"
  by (simp add: port_forward_def try_except_def bnd_def perform_def ret_def lift_def healthy_def
      str_int_def digits.simps)

text \<open>
  C8, as amended. For a \<open>resource_type\<close> other than \<^verbatim>\<open>pod\<close>, \<^verbatim>\<open>deployment\<close> and
  \<^verbatim>\<open>service\<close>, \<open>delete_resource\<close> makes no request at all, so no deletion call, and
  returns \<^verbatim>\<open>"success": False\<close>. The error is \<^verbatim>\<open>Unsupported resource type: <type>\<close> when
  the client could be imported and the kubeconfig loaded, and the message of that
  exception otherwise.
\<close>

theorem delete_resource_unsupported:
  assumes "resource_type \<notin> {''pod'', ''deployment'', ''service''}"
  shows "\<exists>d w' add.
           delete_resource exec resource_type name namespace (w, tr) = (Inr d, (w', tr @ add)) \<and>
           requests add = 0 \<and>
           map_of d ''success'' = Some (PBool False) \<and>
           (case fst (kube_client exec (w, tr)) of
              Inr loaded \<Rightarrow> d = failure (''Unsupported resource type: '' @ resource_type)
            | Inl e \<Rightarrow> d = failure (str_exn e))"
  using assms
  by (auto simp: delete_resource_def kube_client_def run_unfold failure_def requests_def
      is_request_def split: sum.splits)

theorem delete_resource_unsupported_witness:
  "''configmap'' \<notin> {''pod'', ''deployment'', ''service''} \<and>
   (\<exists>d w' add.
      delete_resource healthy ''configmap'' ''settings'' ''default'' ((), []) =
        (Inr d, (w', [] @ add)) \<and>
      requests add = 0 \<and>
      map_of d ''success'' = Some (PBool False) \<and>
      d = failure (''Unsupported resource type: '' @ ''configmap''))"
proof -
  have h: "''configmap'' \<notin> {''pod'', ''deployment'', ''service''}" by simp
  have k: "fst (kube_client healthy ((), [])) = Inr (PStr ''ok'')"
    by (simp add: kube_client_def run_unfold healthy_def)
  from delete_resource_unsupported[OF h, of healthy "''settings''" "''default''" "()" "[]"] k h
  show ?thesis by auto
qed

text \<open>
  C8 as stated fails without a kubeconfig: the configuration is loaded before the resource
  type is looked at, and the error is the loader's.
\<close>

theorem delete_resource_without_kubeconfig:
  "fst (delete_resource no_kubeconfig ''configmap'' ''settings'' ''default'' ((), [])) =
     Inr [(''success'', PBool False),
          (''error'', PStr ''Invalid kube-config file. No configuration found.'')]"
  by (simp add: delete_resource_def kube_client_def run_unfold failure_def no_kubeconfig_def)

text \<open>
  C9, as amended. Let the availability check have found helm, leaving the state \<open>s1\<close>.
  If \<open>repo\<close> is a non-empty string that does not split on \<^verbatim>\<open>=\<close> into exactly two parts,
  \<open>install_helm_chart\<close> and \<open>upgrade_helm_chart\<close> return the error \<^verbatim>\<open>Repository format
  should be 'repo_name=repo_url'\<close> in the state \<open>s1\<close>: no call was made after the check.
  If \<open>repo\<close> splits into \<open>repo_name\<close> and \<open>repo_url\<close> and the chart name has no \<^verbatim>\<open>/\<close>, every
  \<^verbatim>\<open>helm install\<close> (\<^verbatim>\<open>helm upgrade\<close>) command of the run names the release and the chart
  \<^verbatim>\<open>repo_name/chart\<close>.
\<close>

theorem helm_repo_argument:
  "(check_helm_availability exec (w, tr) = (Inr True, s1) \<and> r \<noteq> [] \<and>
      length (split_on CHR ''='' r) \<noteq> 2 \<longrightarrow>
      install_helm_chart exec name chart ns (Some r) vals (w, tr) =
        (Inr (failure (''Repository format should be '' @ quoted ''repo_name=repo_url'')), s1) \<and>
      upgrade_helm_chart exec name chart ns (Some r) vals (w, tr) =
        (Inr (failure (''Repository format should be '' @ quoted ''repo_name=repo_url'')), s1)) \<and>
   (split_on CHR ''='' r = [repo_name, repo_url] \<and> CHR ''/'' \<notin> set chart \<longrightarrow>
      (\<exists>res w' add.
         install_helm_chart exec name chart ns (Some r) vals (w, tr) = (res, (w', tr @ add)) \<and>
         list_all (passes_chart ''install'' name (repo_name @ ''/'' @ chart)) add) \<and>
      (\<exists>res w' add.
         upgrade_helm_chart exec name chart ns (Some r) vals (w, tr) = (res, (w', tr @ add)) \<and>
         list_all (passes_chart ''upgrade'' name (repo_name @ ''/'' @ chart)) add))"
proof (intro conjI impI)
  assume a: "check_helm_availability exec (w, tr) = (Inr True, s1) \<and> r \<noteq> [] \<and>
      length (split_on CHR ''='' r) \<noteq> 2"
  then show "install_helm_chart exec name chart ns (Some r) vals (w, tr) =
        (Inr (failure (''Repository format should be '' @ quoted ''repo_name=repo_url'')), s1)"
    by (simp add: install_helm_chart_def bnd_def try_except_def add_repo_malformed ret_def)
  from a show "upgrade_helm_chart exec name chart ns (Some r) vals (w, tr) =
        (Inr (failure (''Repository format should be '' @ quoted ''repo_name=repo_url'')), s1)"
    by (simp add: upgrade_helm_chart_def bnd_def try_except_def add_repo_malformed ret_def)
next
  assume a: "split_on CHR ''='' r = [repo_name, repo_url] \<and> CHR ''/'' \<notin> set chart"
  then have p: "prefixed (Some r) chart = repo_name @ ''/'' @ chart"
    by (simp add: prefixed_valid)
  define st :: "unit \<Rightarrow> call \<times> outcome \<Rightarrow> unit option"
    where "st = only_if (passes_chart ''install'' name (prefixed (Some r) chart))"
  note ig = chart_scan[OF st_def disjI1[OF refl]]
  have ens: "run_sat (ensure_namespace exec ns)
      (scan st (\<lambda>q. True) () (\<lambda>v q'. case v of Inr u \<Rightarrow> q' = () | Inl d \<Rightarrow> True))"
    by (rule scan_weaken[OF scan_inv[OF ensure_namespace_ignored[OF ig(4)]]])
      (simp_all split: sum.splits)
  have "run_sat (install_helm_chart exec name chart ns (Some r) vals)
      (scan st (\<lambda>q. True) () anything)"
    by (rule install_scan[where ?q1.0 = "()", OF ig(1) ig(1) ig(2) ig(3) ens ig(5)]) simp_all
  then obtain res w' add q' where
    "install_helm_chart exec name chart ns (Some r) vals (w, tr) = (res, (w', tr @ add))"
    and "run_steps st () add = Some q'"
    unfolding run_sat_def scan_def by blast
  then show "\<exists>res w' add.
         install_helm_chart exec name chart ns (Some r) vals (w, tr) = (res, (w', tr @ add)) \<and>
         list_all (passes_chart ''install'' name (repo_name @ ''/'' @ chart)) add"
    unfolding st_def p by (auto simp: run_steps_only_if)
next
  assume a: "split_on CHR ''='' r = [repo_name, repo_url] \<and> CHR ''/'' \<notin> set chart"
  then have p: "prefixed (Some r) chart = repo_name @ ''/'' @ chart"
    by (simp add: prefixed_valid)
  define st :: "unit \<Rightarrow> call \<times> outcome \<Rightarrow> unit option"
    where "st = only_if (passes_chart ''upgrade'' name (prefixed (Some r) chart))"
  note ig = chart_scan[OF st_def disjI2[OF refl]]
  have "run_sat (upgrade_helm_chart exec name chart ns (Some r) vals)
      (scan st (stays ()) () anything)"
    by (rule upgrade_scan[OF ig(1) ig(2) ig(3) ig(5)])
  then obtain res w' add q' where
    "upgrade_helm_chart exec name chart ns (Some r) vals (w, tr) = (res, (w', tr @ add))"
    and "run_steps st () add = Some q'"
    unfolding run_sat_def scan_def by blast
  then show "\<exists>res w' add.
         upgrade_helm_chart exec name chart ns (Some r) vals (w, tr) = (res, (w', tr @ add)) \<and>
         list_all (passes_chart ''upgrade'' name (repo_name @ ''/'' @ chart)) add"
    unfolding st_def p by (auto simp: run_steps_only_if)
qed

theorem helm_repo_argument_witness:
  "(check_helm_availability healthy ((), []) =
      (Inr True, ((), [(Lib ''shutil.which'' [PStr ''helm''], Inr (PStr ''/usr/local/bin/tool'')),
                       (CheckOutput [''helm'', ''version''], Inr (PStr ''ok''))])) \<and>
    ''bitnami'' \<noteq> [] \<and> length (split_on CHR ''='' ''bitnami'') \<noteq> 2) \<and>
   install_helm_chart healthy ''web'' ''nginx'' ''prod'' (Some ''bitnami'') PNone ((), []) =
     (Inr (failure (''Repository format should be '' @ quoted ''repo_name=repo_url'')),
      ((), [(Lib ''shutil.which'' [PStr ''helm''], Inr (PStr ''/usr/local/bin/tool'')),
            (CheckOutput [''helm'', ''version''], Inr (PStr ''ok''))])) \<and>
   (split_on CHR ''='' ''bitnami=https://charts.example'' = [''bitnami'', ''https://charts.example'']
      \<and> CHR ''/'' \<notin> set ''nginx'') \<and>
   (\<exists>res w' add.
      install_helm_chart healthy ''web'' ''nginx'' ''prod''
        (Some ''bitnami=https://charts.example'') PNone ((), []) = (res, (w', [] @ add)) \<and>
      list_all (passes_chart ''install'' ''web'' (''bitnami'' @ ''/'' @ ''nginx'')) add)"
proof -
  have a: "check_helm_availability healthy ((), []) =
      (Inr True, ((), [(Lib ''shutil.which'' [PStr ''helm''], Inr (PStr ''/usr/local/bin/tool'')),
                       (CheckOutput [''helm'', ''version''], Inr (PStr ''ok''))]))"
    by (simp add: check_helm_availability_def check_tool_availability_def run_unfold healthy_def)
  have b: "''bitnami'' \<noteq> [] \<and> length (split_on CHR ''='' ''bitnami'') \<noteq> 2"
    by simp
  have c: "split_on CHR ''='' ''bitnami=https://charts.example'' =
      [''bitnami'', ''https://charts.example''] \<and> CHR ''/'' \<notin> set ''nginx''"
    by simp
  from helm_repo_argument[where exec = healthy and w = "()" and tr = "[]" and r = "''bitnami''"
      and name = "''web''" and chart = "''nginx''" and ns = "''prod''" and vals = PNone]
    a b
  have 1: "install_helm_chart healthy ''web'' ''nginx'' ''prod'' (Some ''bitnami'') PNone ((), []) =
     (Inr (failure (''Repository format should be '' @ quoted ''repo_name=repo_url'')),
      ((), [(Lib ''shutil.which'' [PStr ''helm''], Inr (PStr ''/usr/local/bin/tool'')),
            (CheckOutput [''helm'', ''version''], Inr (PStr ''ok''))]))"
    by blast
  from helm_repo_argument[where exec = healthy and w = "()" and tr = "[]"
      and r = "''bitnami=https://charts.example''" and repo_name = "''bitnami''"
      and repo_url = "''https://charts.example''" and name = "''web''" and chart = "''nginx''"
      and ns = "''prod''" and vals = PNone] c
  have 2: "\<exists>res w' add.
      install_helm_chart healthy ''web'' ''nginx'' ''prod''
        (Some ''bitnami=https://charts.example'') PNone ((), []) = (res, (w', [] @ add)) \<and>
      list_all (passes_chart ''install'' ''web'' (''bitnami'' @ ''/'' @ ''nginx'')) add"
    by blast
  from a b c 1 2 show ?thesis by blast
qed

text \<open>
  C9 as stated fails: the format error comes after the command \<^verbatim>\<open>helm version\<close> of the
  availability check, and without helm the error is another one.
\<close>

theorem repo_format_checked_after_helm:
  "install_helm_chart healthy ''web'' ''nginx'' ''prod'' (Some ''bitnami'') PNone ((), []) =
     (Inr [(''success'', PBool False),
           (''error'', PStr (''Repository format should be '' @ quoted ''repo_name=repo_url''))],
      ((), [(Lib ''shutil.which'' [PStr ''helm''], Inr (PStr ''/usr/local/bin/tool'')),
            (CheckOutput [''helm'', ''version''], Inr (PStr ''ok''))])) \<and>
   fst (install_helm_chart bare ''web'' ''nginx'' ''prod'' (Some ''bitnami'') PNone ((), [])) =
     Inr [(''success'', PBool False), (''error'', PStr ''Helm is not available on this system'')]"
  by (simp add: install_helm_chart_def check_helm_availability_def check_tool_availability_def
      add_repo_def run_unfold healthy_def bare_def failure_def)

text \<open>
  C5 as stated fails when the second run fails too: without a metrics API both commands
  exit non-zero and the result is a failure.
\<close>

theorem resource_usage_without_metrics:
  "get_resource_usage no_metrics None ((), []) =
     (Inr [(''success'', PBool False),
           (''error'', PStr ''Failed to get resource usage: error: Metrics API not available'')],
      ((), [(Lib ''shutil.which'' [PStr ''kubectl''], Inr (PStr ''/usr/local/bin/kubectl'')),
            (CheckOutput [''kubectl'', ''version'', ''--client''], Inr (PStr ''ok'')),
            (CheckOutput [''kubectl'', ''top'', ''pods'', ''--no-headers'', ''--all-namespaces'',
               ''-o'', ''json''],
             Inl (CalledProcessError ''Command returned non-zero exit status 1.''
                    ''error: Metrics API not available'')),
            (CheckOutput [''kubectl'', ''top'', ''pods'', ''--all-namespaces''],
             Inl (CalledProcessError ''Command returned non-zero exit status 1.''
                    ''error: Metrics API not available''))]))"
  by (simp add: get_resource_usage_def check_kubectl_availability_def
      check_tool_availability_def json_or_text_def top_pods_args_def run_unfold class_defs
      no_metrics_def failure_def)

text \<open>
  C1, as amended. Every registered tool, on every request, returns a dictionary instead
  of raising: the dictionary has \<^verbatim>\<open>"success": True\<close>, or \<^verbatim>\<open>"success": False\<close> with an
  \<^verbatim>\<open>error\<close> message; and whenever a call the tool made raised an exception that is not
  one of the three the source recovers from by design, the result has
  \<^verbatim>\<open>"success": False\<close>. For the four tools that run an availability check before their
  \<^verbatim>\<open>try\<close> (\<open>precheck\<close> names the tool they look for), this holds from every state in
  which that check does not raise; the other tools need no such condition.
\<close>

theorem tool_returns_envelope:
  assumes "\<And>t e. precheck req = Some t \<Longrightarrow> fst (check_tool_availability exec t (w, tr)) \<noteq> Inl e"
  shows "\<exists>d w' add. call_tool exec home req (w, tr) = (Inr d, (w', tr @ add)) \<and> envelope d \<and>
           (dirty add \<longrightarrow> \<not> succeeded d)"
proof (cases "background_command req")
  case None
  have sat: "run_sat (call_tool exec home req) (post (prechecked req) enveloped (max_requests req))"
    using None by (rule call_tool_sat)
  have total: "\<forall>e. fst (call_tool exec home req (w, tr)) \<noteq> Inl e"
  proof (intro allI notI)
    fix e
    assume raised: "fst (call_tool exec home req (w, tr)) = Inl e"
    from sat obtain r w' add where run: "call_tool exec home req (w, tr) = (r, (w', tr @ add))"
      and p: "post (prechecked req) enveloped (max_requests req) r add"
      unfolding run_sat_def by blast
    from run raised p have "prechecked req" by (simp add: post_def)
    from precheck_raises[OF this raised] assms show False by blast
  qed
  from run_sat_result[OF sat total] show ?thesis .
next
  case (Some cmd)
  then obtain p l q ns where req: "req = PortForward p l q ns"
    by (cases req) simp_all
  show ?thesis
    unfolding req
    by (auto simp: port_forward_run Let_def sbind_def envelope_def succeeded_def failure_def
        dirty_def unrecovered_def recovers_def split: sum.splits)
qed

theorem tool_returns_envelope_witness:
  "precheck (UninstallHelmChart ''web'' ''prod'') = Some ''helm'' \<and>
   (\<forall>e. fst (check_tool_availability no_release ''helm'' ((), [])) \<noteq> Inl e) \<and>
   call_tool no_release ''/home/dev/.kube/config'' (UninstallHelmChart ''web'' ''prod'') ((), []) =
     (Inr [(''success'', PBool False),
           (''error'', PStr (''Failed to uninstall Helm chart: '' @
              ''Error: uninstall: Release not loaded: web: release: not found''))],
      ((), [] @
           [(Lib ''shutil.which'' [PStr ''helm''], Inr (PStr ''/usr/local/bin/helm'')),
            (CheckOutput [''helm'', ''version''], Inr (PStr ''ok'')),
            (CheckOutput [''helm'', ''uninstall'', ''web'', ''-n'', ''prod''],
             Inl (CalledProcessError ''Command returned non-zero exit status 1.''
                    ''Error: uninstall: Release not loaded: web: release: not found''))])) \<and>
   dirty [(Lib ''shutil.which'' [PStr ''helm''], Inr (PStr ''/usr/local/bin/helm'')),
          (CheckOutput [''helm'', ''version''], Inr (PStr ''ok'')),
          (CheckOutput [''helm'', ''uninstall'', ''web'', ''-n'', ''prod''],
           Inl (CalledProcessError ''Command returned non-zero exit status 1.''
                  ''Error: uninstall: Release not loaded: web: release: not found''))] \<and>
   \<not> succeeded [(''success'', PBool False),
           (''error'', PStr (''Failed to uninstall Helm chart: '' @
              ''Error: uninstall: Release not loaded: web: release: not found''))]"
proof -
  let ?req = "UninstallHelmChart ''web'' ''prod''"
  let ?d = "[(''success'', PBool False),
           (''error'', PStr (''Failed to uninstall Helm chart: '' @
              ''Error: uninstall: Release not loaded: web: release: not found''))]"
  let ?add = "[(Lib ''shutil.which'' [PStr ''helm''], Inr (PStr ''/usr/local/bin/helm'')),
          (CheckOutput [''helm'', ''version''], Inr (PStr ''ok'')),
          (CheckOutput [''helm'', ''uninstall'', ''web'', ''-n'', ''prod''],
           Inl (CalledProcessError ''Command returned non-zero exit status 1.''
                  ''Error: uninstall: Release not loaded: web: release: not found''))]"
  have pre: "precheck ?req = Some ''helm''" by simp
  have chk: "\<forall>e. fst (check_tool_availability no_release ''helm'' ((), [])) \<noteq> Inl e"
    by (simp add: check_tool_availability_def run_unfold no_release_def)
  have run: "call_tool no_release ''/home/dev/.kube/config'' ?req ((), []) =
      (Inr ?d, ((), [] @ ?add))"
    by (simp add: uninstall_helm_chart_def check_helm_availability_def
        check_tool_availability_def run_unfold class_defs no_release_def failure_def)
  have dirt: "dirty ?add"
    by (simp add: dirty_def unrecovered_def recovers_def)
  from tool_returns_envelope[of ?req no_release "()" "[]" "''/home/dev/.kube/config''"] chk
  obtain d w' add where
    "call_tool no_release ''/home/dev/.kube/config'' ?req ((), []) = (Inr d, (w', [] @ add))"
    and "dirty add \<longrightarrow> \<not> succeeded d"
    by auto
  with run dirt have "\<not> succeeded ?d" by simp
  with pre chk run dirt show ?thesis by blast
qed

text \<open>
  C5, as amended. Let the availability check have found kubectl. Each half starts with
  \<^verbatim>\<open>kubectl top ... -o json\<close>. If for the pods that command fails with
  \<^verbatim>\<open>CalledProcessError\<close>, or its output is rejected by \<^verbatim>\<open>json.loads\<close>, the command is
  run again without \<^verbatim>\<open>--no-headers -o json\<close>. If the second run succeeds, its text is the
  \<^verbatim>\<open>pod_usage\<close> under the key \<^verbatim>\<open>text_output\<close>, and the result has
  \<^verbatim>\<open>"success": True\<close> once the nodes' half has produced its data, whichever way. If the
  second run raises, the result is \<^verbatim>\<open>"success": False\<close> with the error of that run and
  nothing more is called. The same holds for the nodes, whichever way the pods' half
  produced its data.
\<close>

theorem resource_usage_fallback:
  assumes "check_kubectl_availability exec (w, tr) = (Inr True, (w0, tr0))"
  shows
    "(json_fails exec ([''kubectl'', ''top'', ''pods'', ''--no-headers''] @ top_pods_args ns
         @ [''-o'', ''json'']) w0 = Some (w1, es) \<and>
      exec (CheckOutput ([''kubectl'', ''top'', ''pods''] @ top_pods_args ns)) w1 = (Inr text, w2) \<and>
      json_or_text exec [''kubectl'', ''top'', ''nodes'', ''--no-headers'', ''-o'', ''json'']
        [''kubectl'', ''top'', ''nodes'']
        (w2, tr0 @ es @ [(CheckOutput ([''kubectl'', ''top'', ''pods''] @ top_pods_args ns),
           Inr text)]) = (Inr node_data, s3) \<longrightarrow>
      get_resource_usage exec ns (w, tr) =
        (Inr [(''success'', PBool True),
              (''pod_usage'', PDict [(''text_output'', text)]),
              (''node_usage'', node_data)], s3)) \<and>
     (json_fails exec ([''kubectl'', ''top'', ''pods'', ''--no-headers''] @ top_pods_args ns
         @ [''-o'', ''json'']) w0 = Some (w1, es) \<and>
      exec (CheckOutput ([''kubectl'', ''top'', ''pods''] @ top_pods_args ns)) w1 = (Inl e, w2) \<longrightarrow>
      get_resource_usage exec ns (w, tr) =
        (Inr (usage_failure e),
         (w2, tr0 @ es @ [(CheckOutput ([''kubectl'', ''top'', ''pods''] @ top_pods_args ns),
            Inl e)]))) \<and>
     (json_or_text exec
        ([''kubectl'', ''top'', ''pods'', ''--no-headers''] @ top_pods_args ns @ [''-o'', ''json''])
        ([''kubectl'', ''top'', ''pods''] @ top_pods_args ns) (w0, tr0) =
          (Inr pod_data, (w3, tr3)) \<and>
      json_fails exec [''kubectl'', ''top'', ''nodes'', ''--no-headers'', ''-o'', ''json''] w3 =
        Some (w4, es') \<and>
      exec (CheckOutput [''kubectl'', ''top'', ''nodes'']) w4 = (Inr text', w5) \<longrightarrow>
      get_resource_usage exec ns (w, tr) =
        (Inr [(''success'', PBool True),
              (''pod_usage'', pod_data),
              (''node_usage'', PDict [(''text_output'', text')])],
         (w5, tr3 @ es' @ [(CheckOutput [''kubectl'', ''top'', ''nodes''], Inr text')]))) \<and>
     (json_or_text exec
        ([''kubectl'', ''top'', ''pods'', ''--no-headers''] @ top_pods_args ns @ [''-o'', ''json''])
        ([''kubectl'', ''top'', ''pods''] @ top_pods_args ns) (w0, tr0) =
          (Inr pod_data, (w3, tr3)) \<and>
      json_fails exec [''kubectl'', ''top'', ''nodes'', ''--no-headers'', ''-o'', ''json''] w3 =
        Some (w4, es') \<and>
      exec (CheckOutput [''kubectl'', ''top'', ''nodes'']) w4 = (Inl e', w5) \<longrightarrow>
      get_resource_usage exec ns (w, tr) =
        (Inr (usage_failure e'),
         (w5, tr3 @ es' @ [(CheckOutput [''kubectl'', ''top'', ''nodes''], Inl e')])))"
  using assms
  by (auto simp: get_resource_usage_def bnd_def try_except_def ret_def json_or_text_fallback
      usage_failure_def)

theorem resource_usage_fallback_witness:
  "check_kubectl_availability no_node_metrics ((), []) =
     (Inr True,
      ((), [(Lib ''shutil.which'' [PStr ''kubectl''], Inr (PStr ''/usr/local/bin/kubectl'')),
            (CheckOutput [''kubectl'', ''version'', ''--client''], Inr (PStr ''NAME CPU MEMORY''))])) \<and>
   json_fails no_node_metrics ([''kubectl'', ''top'', ''pods'', ''--no-headers'']
       @ top_pods_args (Some ''prod'') @ [''-o'', ''json'']) () =
     Some ((), [(CheckOutput [''kubectl'', ''top'', ''pods'', ''--no-headers'', ''-n'', ''prod'',
                   ''-o'', ''json''],
                 Inl (CalledProcessError ''Command returned non-zero exit status 1.''
                        ''error: metrics not available yet''))]) \<and>
   no_node_metrics (CheckOutput ([''kubectl'', ''top'', ''pods''] @ top_pods_args (Some ''prod''))) () =
     (Inr (PStr ''NAME CPU MEMORY''), ()) \<and>
   json_fails no_node_metrics [''kubectl'', ''top'', ''nodes'', ''--no-headers'', ''-o'', ''json''] () =
     Some ((), [(CheckOutput [''kubectl'', ''top'', ''nodes'', ''--no-headers'', ''-o'', ''json''],
                 Inl (CalledProcessError ''Command returned non-zero exit status 1.''
                        ''error: metrics not available yet''))]) \<and>
   no_node_metrics (CheckOutput [''kubectl'', ''top'', ''nodes'']) () =
     (Inl (CalledProcessError ''Command returned non-zero exit status 1.''
             ''error: metrics not available yet''), ()) \<and>
   fst (get_resource_usage no_node_metrics (Some ''prod'') ((), [])) =
     Inr [(''success'', PBool False),
          (''error'', PStr ''Failed to get resource usage: error: metrics not available yet'')] \<and>
   fst (get_resource_usage no_json None ((), [])) =
     Inr [(''success'', PBool True),
          (''pod_usage'', PDict [(''text_output'', PStr ''NAME CPU MEMORY'')]),
          (''node_usage'', PDict [(''text_output'', PStr ''NAME CPU MEMORY'')])]"
proof -
  let ?tr0 = "[(Lib ''shutil.which'' [PStr ''kubectl''], Inr (PStr ''/usr/local/bin/kubectl'')),
            (CheckOutput [''kubectl'', ''version'', ''--client''], Inr (PStr ''NAME CPU MEMORY''))]"
  let ?err = "Inl (CalledProcessError ''Command returned non-zero exit status 1.''
                        ''error: metrics not available yet'') :: outcome"
  let ?err' = "Inl (CalledProcessError ''Command returned non-zero exit status 1.''
                        ''error: unknown shorthand flag'') :: outcome"
  \<comment> \<open>The nodes' second run fails.\<close>
  have avail: "check_kubectl_availability no_node_metrics ((), []) = (Inr True, ((), ?tr0))"
    by (simp add: check_kubectl_availability_def check_tool_availability_def run_unfold
        no_node_metrics_def)
  have pods: "json_fails no_node_metrics ([''kubectl'', ''top'', ''pods'', ''--no-headers'']
       @ top_pods_args (Some ''prod'') @ [''-o'', ''json'']) () =
     Some ((), [(CheckOutput [''kubectl'', ''top'', ''pods'', ''--no-headers'', ''-n'', ''prod'',
                   ''-o'', ''json''], ?err)])"
    by (simp add: json_fails_def top_pods_args_def no_node_metrics_def class_defs)
  have pods_text: "no_node_metrics
       (CheckOutput ([''kubectl'', ''top'', ''pods''] @ top_pods_args (Some ''prod''))) () =
     (Inr (PStr ''NAME CPU MEMORY''), ())"
    by (simp add: top_pods_args_def no_node_metrics_def)
  have nodes: "json_fails no_node_metrics
       [''kubectl'', ''top'', ''nodes'', ''--no-headers'', ''-o'', ''json''] () =
     Some ((), [(CheckOutput [''kubectl'', ''top'', ''nodes'', ''--no-headers'', ''-o'', ''json''],
                 ?err)])"
    by (simp add: json_fails_def no_node_metrics_def class_defs)
  have nodes_text: "no_node_metrics (CheckOutput [''kubectl'', ''top'', ''nodes'']) () = (?err, ())"
    by (simp add: no_node_metrics_def)
  have pods_half: "json_or_text no_node_metrics
        ([''kubectl'', ''top'', ''pods'', ''--no-headers''] @ top_pods_args (Some ''prod'')
           @ [''-o'', ''json''])
        ([''kubectl'', ''top'', ''pods''] @ top_pods_args (Some ''prod'')) ((), ?tr0) =
      (Inr (PDict [(''text_output'', PStr ''NAME CPU MEMORY'')]),
       ((), ?tr0 @ [(CheckOutput [''kubectl'', ''top'', ''pods'', ''--no-headers'', ''-n'',
                       ''prod'', ''-o'', ''json''], ?err)]
              @ [(CheckOutput ([''kubectl'', ''top'', ''pods''] @ top_pods_args (Some ''prod'')),
                  Inr (PStr ''NAME CPU MEMORY''))]))"
    using json_or_text_fallback[OF pods] pods_text by simp
  from resource_usage_fallback[OF avail, where ns = "Some ''prod''", THEN conjunct2,
      THEN conjunct2, THEN conjunct2, rule_format,
      OF conjI[OF pods_half conjI[OF nodes nodes_text]]]
  have failed: "fst (get_resource_usage no_node_metrics (Some ''prod'') ((), [])) =
     Inr [(''success'', PBool False),
          (''error'', PStr ''Failed to get resource usage: error: metrics not available yet'')]"
    by (simp add: usage_failure_def class_defs failure_def)
  \<comment> \<open>Both second runs succeed.\<close>
  have avail': "check_kubectl_availability no_json ((), []) = (Inr True, ((), ?tr0))"
    by (simp add: check_kubectl_availability_def check_tool_availability_def run_unfold
        no_json_def)
  have pods': "json_fails no_json ([''kubectl'', ''top'', ''pods'', ''--no-headers'']
       @ top_pods_args None @ [''-o'', ''json'']) () =
     Some ((), [(CheckOutput [''kubectl'', ''top'', ''pods'', ''--no-headers'', ''--all-namespaces'',
                   ''-o'', ''json''], ?err')])"
    by (simp add: json_fails_def top_pods_args_def no_json_def class_defs)
  have pods_text': "no_json (CheckOutput ([''kubectl'', ''top'', ''pods''] @ top_pods_args None)) () =
     (Inr (PStr ''NAME CPU MEMORY''), ())"
    by (simp add: top_pods_args_def no_json_def)
  have nodes': "json_fails no_json [''kubectl'', ''top'', ''nodes'', ''--no-headers'', ''-o'', ''json'']
       () =
     Some ((), [(CheckOutput [''kubectl'', ''top'', ''nodes'', ''--no-headers'', ''-o'', ''json''],
                 ?err')])"
    by (simp add: json_fails_def no_json_def class_defs)
  have nodes_text': "no_json (CheckOutput [''kubectl'', ''top'', ''nodes'']) () =
     (Inr (PStr ''NAME CPU MEMORY''), ())"
    by (simp add: no_json_def)
  have nodes_half': "json_or_text no_json
        [''kubectl'', ''top'', ''nodes'', ''--no-headers'', ''-o'', ''json'']
        [''kubectl'', ''top'', ''nodes'']
        ((), ?tr0 @ [(CheckOutput [''kubectl'', ''top'', ''pods'', ''--no-headers'',
                       ''--all-namespaces'', ''-o'', ''json''], ?err')]
              @ [(CheckOutput ([''kubectl'', ''top'', ''pods''] @ top_pods_args None),
                  Inr (PStr ''NAME CPU MEMORY''))]) =
      (Inr (PDict [(''text_output'', PStr ''NAME CPU MEMORY'')]),
       ((), (?tr0 @ [(CheckOutput [''kubectl'', ''top'', ''pods'', ''--no-headers'',
                       ''--all-namespaces'', ''-o'', ''json''], ?err')]
              @ [(CheckOutput ([''kubectl'', ''top'', ''pods''] @ top_pods_args None),
                  Inr (PStr ''NAME CPU MEMORY''))])
             @ [(CheckOutput [''kubectl'', ''top'', ''nodes'', ''--no-headers'', ''-o'', ''json''],
                 ?err')]
             @ [(CheckOutput [''kubectl'', ''top'', ''nodes''], Inr (PStr ''NAME CPU MEMORY''))]))"
    using json_or_text_fallback[OF nodes'] nodes_text' by simp
  from resource_usage_fallback[OF avail', where ns = None, THEN conjunct1, rule_format,
      OF conjI[OF pods' conjI[OF pods_text' nodes_half']]]
  have succeeded: "fst (get_resource_usage no_json None ((), [])) =
     Inr [(''success'', PBool True),
          (''pod_usage'', PDict [(''text_output'', PStr ''NAME CPU MEMORY'')]),
          (''node_usage'', PDict [(''text_output'', PStr ''NAME CPU MEMORY'')])]"
    by simp
  from avail pods pods_text nodes nodes_text failed succeeded show ?thesis by blast
qed






end
